theory Spec2Isabelle
  imports Complex_Main
begin

section \<open>Conventions of the embedding\<close>

text \<open>
  The two services \<^verbatim>\<open>auto_scheduling_service.py\<close> and
  \<^verbatim>\<open>predictive_tasks_service.py\<close> are embedded function by function.

  \<^item> Python floats are modelled as \<^typ>\<open>real\<close>: every constant of the source is a
    decimal literal and every comparison is between such literals or their averages.
  \<^item> A \<^verbatim>\<open>datetime\<close> is the number of minutes since 0001-01-01T00:00 (a Monday),
    so \<^verbatim>\<open>.hour\<close>, \<^verbatim>\<open>.date()\<close>, \<^verbatim>\<open>.weekday()\<close> and \<^verbatim>\<open>timedelta\<close> arithmetic are
    integer arithmetic; seconds and microseconds are not represented.
  \<^item> Strings are ASCII character lists.
  \<^item> Every \<^verbatim>\<open>raise\<close> is a value \<open>Inl e\<close> of a sum type, every \<^verbatim>\<open>try/except\<close> a case
    distinction on it.
  \<^item> The outcome of a database query, of a database insert and of a cache write is an
    input of the model: the services themselves only react to it.
\<close>

datatype exn = ValueError string | KeyError string | TypeError string | DatabaseError string

fun exn_str :: "exn \<Rightarrow> string" where
  "exn_str (ValueError m) = m"
| "exn_str (KeyError m) = m"
| "exn_str (TypeError m) = m"
| "exn_str (DatabaseError m) = m"

type_synonym datetime = int

definition hour_of :: "datetime \<Rightarrow> nat" where
  "hour_of t = nat ((t div 60) mod 24)"

definition date_of :: "datetime \<Rightarrow> int" where
  "date_of t = t div 1440"

definition weekday :: "int \<Rightarrow> nat" where
  "weekday d = nat (d mod 7)"

definition day_names :: "string list" where
  "day_names = [''Monday'', ''Tuesday'', ''Wednesday'', ''Thursday'', ''Friday'',
                ''Saturday'', ''Sunday'']"

text \<open>\<^verbatim>\<open>strftime('%A')\<close> of a date.\<close>

definition day_name :: "int \<Rightarrow> string" where
  "day_name d = day_names ! weekday d"

text \<open>\<^verbatim>\<open>np.mean\<close> of a non-empty list.\<close>

definition mean :: "real list \<Rightarrow> real" where
  "mean xs = sum_list xs / real (length xs)"

text \<open>
  \<^verbatim>\<open>xs.sort(key=k, reverse=True)\<close> and \<^verbatim>\<open>sorted(xs, key=k, reverse=True)\<close>: descending by
  key, and stable, so elements with equal keys keep their original order.
\<close>

definition sort_desc_by :: "('a \<Rightarrow> real) \<Rightarrow> 'a list \<Rightarrow> 'a list" where
  "sort_desc_by k xs = sort_key (\<lambda>x. - k x) xs"

text \<open>The slice \<^verbatim>\<open>xs[-n:]\<close> for \<open>n \<ge> 0\<close>; \<^verbatim>\<open>xs[-0:]\<close> is the whole list.\<close>

definition slice_last :: "nat \<Rightarrow> 'a list \<Rightarrow> 'a list" where
  "slice_last n xs = (if n = 0 then xs else drop (length xs - n) xs)"


section \<open>Productivity patterns (\<^verbatim>\<open>_get_productivity_patterns\<close>)\<close>

record PomodoroSession =
  focus_score :: "real option"
  interrupted :: bool
  completed_at :: "datetime option"

record hour_entry =
  entry_focus_score :: real
  entry_completion_rate :: real
  entry_interruptions :: nat

record hour_stats =
  avg_focus_score :: real
  avg_completion_rate :: real
  interruption_rate :: real
  session_count :: nat

record focus_block =
  start_hour :: nat
  end_hour :: nat
  productivity_score :: real
  focus_quality :: "string option"

record ProductivityPattern =
  hourly_productivity :: "(nat \<times> hour_stats) list"
  daily_productivity :: "(string \<times> real) list"
  optimal_focus_blocks :: "focus_block list"
  energy_levels :: "(string \<times> real) list"
  peak_hours :: "nat list"
  low_energy_hours :: "nat list"
  context_switch_tolerance :: real

text \<open>\<^verbatim>\<open>session.focus_score or 0.5\<close>: a missing score and a score of 0 both give 0.5.\<close>

definition focus_or_default :: "PomodoroSession \<Rightarrow> real" where
  "focus_or_default s = (case focus_score s of None \<Rightarrow> 0.5
                          | Some f \<Rightarrow> if f = 0 then 0.5 else f)"

definition entry_of :: "PomodoroSession \<Rightarrow> hour_entry" where
  "entry_of s = \<lparr>entry_focus_score = focus_or_default s,
                 entry_completion_rate = (if \<not> interrupted s then 1.0 else 0.7),
                 entry_interruptions = (if interrupted s then 1 else 0)\<rparr>"

text \<open>One iteration of the loop that fills \<^verbatim>\<open>hourly_data\<close>.\<close>

definition add_hourly :: "(nat \<rightharpoonup> hour_entry list) \<Rightarrow> PomodoroSession \<Rightarrow> (nat \<rightharpoonup> hour_entry list)" where
  "add_hourly hdata s =
     (case completed_at s of None \<Rightarrow> hdata
      | Some t \<Rightarrow>
          (let hour = hour_of t;
               hdata' = (if hdata hour = None then hdata(hour \<mapsto> []) else hdata)
           in hdata'(hour \<mapsto> the (hdata' hour) @ [entry_of s])))"

definition hourly_data_of :: "PomodoroSession list \<Rightarrow> (nat \<rightharpoonup> hour_entry list)" where
  "hourly_data_of sessions = foldl add_hourly Map.empty sessions"

definition hour_stats_of :: "(nat \<rightharpoonup> hour_entry list) \<Rightarrow> nat \<Rightarrow> hour_stats" where
  "hour_stats_of hdata hour =
     (case hdata hour of
        Some hour_sessions \<Rightarrow>
          \<lparr>avg_focus_score = mean (map entry_focus_score hour_sessions),
           avg_completion_rate = mean (map entry_completion_rate hour_sessions),
           interruption_rate = mean (map (\<lambda>e. real (entry_interruptions e)) hour_sessions),
           session_count = length hour_sessions\<rparr>
      | None \<Rightarrow>
          \<lparr>avg_focus_score = 0.5, avg_completion_rate = 0.5, interruption_rate = 0.5,
           session_count = 0\<rparr>)"

definition hourly_productivity_of :: "(nat \<rightharpoonup> hour_entry list) \<Rightarrow> (nat \<times> hour_stats) list" where
  "hourly_productivity_of hdata = map (\<lambda>hour. (hour, hour_stats_of hdata hour)) [0..<24]"

definition hourly_scores_of :: "(nat \<times> hour_stats) list \<Rightarrow> (nat \<times> real) list" where
  "hourly_scores_of hp = sort_desc_by snd (map (\<lambda>(hour, data). (hour, avg_focus_score data)) hp)"

definition peak_hours_of :: "(nat \<times> hour_stats) list \<Rightarrow> nat list" where
  "peak_hours_of hp =
     (let hourly_scores = hourly_scores_of hp;
          peak_threshold = length hourly_scores div 4
      in map fst (take peak_threshold hourly_scores))"

definition low_energy_hours_of :: "(nat \<times> hour_stats) list \<Rightarrow> nat list" where
  "low_energy_hours_of hp =
     (let hourly_scores = hourly_scores_of hp;
          peak_threshold = length hourly_scores div 4
      in map fst (slice_last peak_threshold hourly_scores))"

text \<open>The inner loop over the two hours of a window; an hour without an entry adds nothing.\<close>

definition block_score_of :: "(nat \<times> hour_stats) list \<Rightarrow> nat \<Rightarrow> real" where
  "block_score_of hp start =
     foldl (\<lambda>acc hour. case map_of hp hour of Some d \<Rightarrow> acc + avg_focus_score d | None \<Rightarrow> acc)
           0 [start..<start + 2]"

definition optimal_block_at :: "(nat \<times> hour_stats) list \<Rightarrow> nat \<Rightarrow> focus_block list" where
  "optimal_block_at hp start =
     (let avg_block_score = block_score_of hp start / 2
      in if avg_block_score > 0.75
         then [\<lparr>start_hour = start, end_hour = start + 2,
                 productivity_score = avg_block_score,
                 focus_quality = Some (if avg_block_score > 0.85 then ''high'' else ''medium'')\<rparr>]
         else [])"

definition optimal_blocks_of :: "(nat \<times> hour_stats) list \<Rightarrow> focus_block list" where
  "optimal_blocks_of hp = concat (map (optimal_block_at hp) [0..<22])"

definition add_daily :: "(string \<rightharpoonup> real list) \<Rightarrow> PomodoroSession \<Rightarrow> (string \<rightharpoonup> real list)" where
  "add_daily dd s =
     (case completed_at s of None \<Rightarrow> dd
      | Some t \<Rightarrow>
          (let dn = day_name (date_of t);
               dd' = (if dd dn = None then dd(dn \<mapsto> []) else dd)
           in dd'(dn \<mapsto> the (dd' dn) @ [focus_or_default s])))"

definition daily_productivity_of :: "PomodoroSession list \<Rightarrow> (string \<times> real) list" where
  "daily_productivity_of sessions =
     (let daily_data = foldl add_daily Map.empty sessions
      in map (\<lambda>day. (day, case daily_data day of Some l \<Rightarrow> mean l | None \<Rightarrow> 0.5)) day_names)"

definition session_interruption_rate :: "PomodoroSession list \<Rightarrow> real" where
  "session_interruption_rate sessions =
     real (length (filter interrupted sessions)) / real (length sessions)"

definition tolerance_of :: "PomodoroSession list \<Rightarrow> real" where
  "tolerance_of sessions =
     (if sessions \<noteq> [] then max 0.1 (1.0 - session_interruption_rate sessions) else 0.5)"

text \<open>The body of the \<^verbatim>\<open>try\<close> block, once both queries have returned.\<close>

definition analyse_sessions :: "PomodoroSession list \<Rightarrow> ProductivityPattern" where
  "analyse_sessions sessions =
     (let hp = hourly_productivity_of (hourly_data_of sessions)
      in \<lparr>hourly_productivity = hp,
          daily_productivity = daily_productivity_of sessions,
          optimal_focus_blocks = optimal_blocks_of hp,
          energy_levels = [],
          peak_hours = peak_hours_of hp,
          low_energy_hours = low_energy_hours_of hp,
          context_switch_tolerance = tolerance_of sessions\<rparr>)"

text \<open>The pattern returned by the \<^verbatim>\<open>except\<close> branch.\<close>

definition default_pattern :: ProductivityPattern where
  "default_pattern =
     \<lparr>hourly_productivity =
        map (\<lambda>hour. (hour, \<lparr>avg_focus_score = 0.5, avg_completion_rate = 0.5,
                              interruption_rate = 0.3, session_count = 0\<rparr>)) [0..<24],
      daily_productivity = map (\<lambda>day. (day, 0.5)) day_names,
      optimal_focus_blocks =
        [\<lparr>start_hour = 9, end_hour = 11, productivity_score = 0.8, focus_quality = None\<rparr>],
      energy_levels = [(''morning'', 0.8), (''afternoon'', 0.6), (''evening'', 0.4)],
      peak_hours = [9, 10, 14, 15],
      low_energy_hours = [12, 13, 16, 17],
      context_switch_tolerance = 0.6\<rparr>"

text \<open>
  The argument is the outcome of opening the database and running the two queries over
  the last 90 days: the sessions it returned, or the exception it raised.
\<close>

definition get_productivity_patterns :: "exn + PomodoroSession list \<Rightarrow> ProductivityPattern" where
  "get_productivity_patterns q =
     (case q of Inr sessions \<Rightarrow> analyse_sessions sessions | Inl e \<Rightarrow> default_pattern)"


section \<open>Python built-ins used by the services\<close>

definition bind_exn :: "exn + 'a \<Rightarrow> ('a \<Rightarrow> exn + 'b) \<Rightarrow> exn + 'b" where
  "bind_exn m f = (case m of Inl e \<Rightarrow> Inl e | Inr x \<Rightarrow> f x)"

text \<open>ASCII white space as \<^verbatim>\<open>str.strip()\<close> sees it: the characters for which \<^verbatim>\<open>str.isspace\<close> holds.\<close>

definition is_space :: "char \<Rightarrow> bool" where
  "is_space c = (let n = (of_char c :: nat) in (9 \<le> n \<and> n \<le> 13) \<or> (28 \<le> n \<and> n \<le> 32))"

definition strip :: "string \<Rightarrow> string" where
  "strip s = rev (dropWhile is_space (rev (dropWhile is_space s)))"

definition lower_char :: "char \<Rightarrow> char" where
  "lower_char c = (let n = (of_char c :: nat) in if 65 \<le> n \<and> n \<le> 90 then char_of (n + 32) else c)"

definition lower :: "string \<Rightarrow> string" where
  "lower s = map lower_char s"

definition is_digit :: "char \<Rightarrow> bool" where
  "is_digit c = (let n = (of_char c :: nat) in 48 \<le> n \<and> n \<le> 57)"

definition digit_val :: "char \<Rightarrow> nat" where
  "digit_val c = of_char c - 48"

text \<open>Decimal rendering of a natural number, as an f-string prints it.\<close>

fun show_nat :: "nat \<Rightarrow> string" where
  "show_nat n = (if n < 10 then [char_of (48 + n)]
                 else show_nat (n div 10) @ [char_of (48 + n mod 10)])"

declare show_nat.simps [simp del]

text \<open>
  \<^verbatim>\<open>repr(s)\<close> of an ASCII string: double quotes when the string has a single quote and no
  double quote, single quotes otherwise; the quote and the backslash are escaped, tab,
  newline and carriage return are written \<^verbatim>\<open>\t\<close>, \<^verbatim>\<open>\n\<close>, \<^verbatim>\<open>\r\<close>, and every other control
  character as \<^verbatim>\<open>\x\<close> with two lower-case hexadecimal digits.
\<close>

definition hex_digit :: "nat \<Rightarrow> char" where
  "hex_digit n = (if n < 10 then char_of (48 + n) else char_of (87 + n))"

definition repr_char :: "char \<Rightarrow> char \<Rightarrow> string" where
  "repr_char quote c =
     (let n = (of_char c :: nat)
      in if c = quote \<or> c = CHR 0x5C then [CHR 0x5C, c]
         else if n = 9 then [CHR 0x5C, CHR ''t'']
         else if n = 10 then [CHR 0x5C, CHR ''n'']
         else if n = 13 then [CHR 0x5C, CHR ''r'']
         else if n < 32 \<or> n = 127 then [CHR 0x5C, CHR ''x'', hex_digit (n div 16), hex_digit (n mod 16)]
         else [c])"

definition py_repr :: "string \<Rightarrow> string" where
  "py_repr s =
     (let quote = (if CHR 0x27 \<in> set s \<and> CHR 0x22 \<notin> set s then CHR 0x22 else CHR 0x27)
      in [quote] @ concat (map (repr_char quote) s) @ [quote])"

text \<open>White space as \<^verbatim>\<open>int()\<close> skips it around an ASCII literal: tab to carriage return, and the blank.\<close>

definition is_int_space :: "char \<Rightarrow> bool" where
  "is_int_space c = (let n = (of_char c :: nat) in (9 \<le> n \<and> n \<le> 13) \<or> n = 32)"

text \<open>
  The scan over the digits of a decimal literal. Underscores are allowed between two
  digits only: the flag says that the previous character was not a digit. The scan stops
  at the first character that is neither a digit nor an underscore and returns the number
  of digits, their value and the rest of the string; \<open>None\<close> is a malformed literal.
\<close>

fun scan_digits :: "string \<Rightarrow> bool \<Rightarrow> nat \<Rightarrow> nat \<Rightarrow> (nat \<times> nat \<times> string) option" where
  "scan_digits [] no_digit digits acc = (if no_digit then None else Some (digits, acc, []))"
| "scan_digits (c # cs) no_digit digits acc =
     (if is_digit c then scan_digits cs False (digits + 1) (10 * acc + digit_val c)
      else if c = CHR ''_'' then (if no_digit then None else scan_digits cs True digits acc)
      else if no_digit then None else Some (digits, acc, c # cs))"

definition invalid_literal :: "string \<Rightarrow> exn" where
  "invalid_literal s = ValueError (''invalid literal for int() with base 10: '' @ py_repr s)"

definition too_many_digits :: "nat \<Rightarrow> exn" where
  "too_many_digits digits =
     ValueError (''Exceeds the limit (4300 digits) for integer string conversion: value has ''
                 @ show_nat digits
                 @ '' digits; use sys.set_int_max_str_digits() to increase the limit'')"

text \<open>
  \<^verbatim>\<open>int(s)\<close> for an ASCII string \<open>s\<close>: leading white space, one optional sign, the digits,
  trailing white space. A run of more than 4300 digits is refused before the rest of the
  string is looked at (the default limit of the interpreter).
\<close>

definition py_int :: "string \<Rightarrow> exn + int" where
  "py_int s =
     (let t = dropWhile is_int_space s;
          (neg, ds) = (case t of [] \<Rightarrow> (False, [])
                       | c # cs \<Rightarrow> if c = CHR ''-'' then (True, cs)
                                  else if c = CHR ''+'' then (False, cs) else (False, t))
      in case scan_digits ds True 0 0 of
           None \<Rightarrow> Inl (invalid_literal s)
         | Some (digits, n, rest) \<Rightarrow>
             if digits > 4300 then Inl (too_many_digits digits)
             else if dropWhile is_int_space rest \<noteq> [] then Inl (invalid_literal s)
             else Inr (if neg then - int n else int n))"

text \<open>
  \<^verbatim>\<open>max(xs, key=f)\<close> and \<^verbatim>\<open>min(xs, key=f)\<close>: the first element with the largest (smallest)
  key; an empty argument raises \<^verbatim>\<open>ValueError\<close>, and so does whatever the key function raises.
\<close>

fun max_loop :: "('a \<Rightarrow> exn + real) \<Rightarrow> 'a list \<Rightarrow> 'a \<Rightarrow> real \<Rightarrow> exn + 'a" where
  "max_loop f [] best bk = Inr best"
| "max_loop f (x # xs) best bk =
     (case f x of Inl e \<Rightarrow> Inl e
      | Inr k \<Rightarrow> if k > bk then max_loop f xs x k else max_loop f xs best bk)"

definition py_max_key :: "('a \<Rightarrow> exn + real) \<Rightarrow> 'a list \<Rightarrow> exn + 'a" where
  "py_max_key f xs =
     (case xs of [] \<Rightarrow> Inl (ValueError ''max() arg is an empty sequence'')
      | x # rest \<Rightarrow> (case f x of Inl e \<Rightarrow> Inl e | Inr k \<Rightarrow> max_loop f rest x k))"

fun min_loop :: "('a \<Rightarrow> exn + real) \<Rightarrow> 'a list \<Rightarrow> 'a \<Rightarrow> real \<Rightarrow> exn + 'a" where
  "min_loop f [] best bk = Inr best"
| "min_loop f (x # xs) best bk =
     (case f x of Inl e \<Rightarrow> Inl e
      | Inr k \<Rightarrow> if k < bk then min_loop f xs x k else min_loop f xs best bk)"

definition py_min_key :: "('a \<Rightarrow> exn + real) \<Rightarrow> 'a list \<Rightarrow> exn + 'a" where
  "py_min_key f xs =
     (case xs of [] \<Rightarrow> Inl (ValueError ''min() arg is an empty sequence'')
      | x # rest \<Rightarrow> (case f x of Inl e \<Rightarrow> Inl e | Inr k \<Rightarrow> min_loop f rest x k))"

text \<open>\<^verbatim>\<open>t.replace(hour=h)\<close>.\<close>

definition replace_hour :: "datetime \<Rightarrow> nat \<Rightarrow> exn + datetime" where
  "replace_hour t h =
     (if h \<le> 23 then Inr (t - int (hour_of t) * 60 + int h * 60)
      else Inl (ValueError ''hour must be in 0..23''))"

text \<open>\<^verbatim>\<open>t.replace(hour=h, minute=0, second=0, microsecond=0)\<close>.\<close>

definition replace_hour_sharp :: "datetime \<Rightarrow> nat \<Rightarrow> exn + datetime" where
  "replace_hour_sharp t h =
     (if h \<le> 23 then Inr (date_of t * 1440 + int h * 60)
      else Inl (ValueError ''hour must be in 0..23''))"



section \<open>The task table\<close>

text \<open>
  A row of the \<^verbatim>\<open>tasks\<close> table (\<^verbatim>\<open>models.Task\<close>); the time stamps \<^verbatim>\<open>created_at\<close> and
  \<^verbatim>\<open>updated_at\<close> and the completed count are left out. The integer column
  \<^verbatim>\<open>estimated_pomodoros\<close> and \<^verbatim>\<open>due_date\<close> are nullable.
\<close>

record Task =
  task_id :: int
  task_user_id :: int
  task_title :: string
  task_description :: string
  task_status :: string
  task_priority :: string
  task_estimated_pomodoros :: "int option"
  task_due_date :: "datetime option"

definition next_id :: "Task list \<Rightarrow> int" where
  "next_id table = 1 + foldl max 0 (map task_id table)"

text \<open>
  \<^verbatim>\<open>db.add(row); db.commit(); db.refresh(row)\<close> inside \<^verbatim>\<open>async with get_db()\<close>. Whether the
  database fails on this row, and with what, is decided by \<open>fails\<close>; otherwise the row is
  stored under a fresh id.
\<close>

definition db_add_commit ::
  "(Task list \<Rightarrow> Task \<Rightarrow> exn option) \<Rightarrow> Task list \<Rightarrow> Task \<Rightarrow> exn + (Task \<times> Task list)" where
  "db_add_commit fails table new =
     (case fails table new of
        Some e \<Rightarrow> Inl e
      | None \<Rightarrow> (let row = new\<lparr>task_id := next_id table\<rparr> in Inr (row, table @ [row])))"


section \<open>Schedule optimisation (\<^verbatim>\<open>auto_scheduling_service.py\<close>)\<close>

datatype OptimizationType =
    MOVE_MEETING_FROM_PEAK_FOCUS
  | BLOCK_FOCUS_TIME
  | RESCHEDULE_LOW_ENERGY_TASKS
  | CONSOLIDATE_MEETINGS
  | ADD_BUFFER_TIME
  | OPTIMIZE_CONTEXT_SWITCHING

fun type_value :: "OptimizationType \<Rightarrow> string" where
  "type_value MOVE_MEETING_FROM_PEAK_FOCUS = ''move_meeting_from_peak_focus''"
| "type_value BLOCK_FOCUS_TIME = ''block_focus_time''"
| "type_value RESCHEDULE_LOW_ENERGY_TASKS = ''reschedule_low_energy_tasks''"
| "type_value CONSOLIDATE_MEETINGS = ''consolidate_meetings''"
| "type_value ADD_BUFFER_TIME = ''add_buffer_time''"
| "type_value OPTIMIZE_CONTEXT_SWITCHING = ''optimize_context_switching''"

text \<open>
  \<^verbatim>\<open>ScheduleOptimization\<close>. The free-text \<^verbatim>\<open>reasoning\<close> and the fields \<^verbatim>\<open>meeting_id\<close> and
  \<^verbatim>\<open>task_id\<close>, which no generator sets, are left out.
\<close>

record ScheduleOptimization =
  optimization_type :: OptimizationType
  opt_title :: string
  opt_description :: string
  opt_confidence :: real
  impact_score :: real
  original_time :: "datetime option"
  suggested_time :: "datetime option"
  duration :: "int option"

record ScheduleBlock =
  start_time :: datetime
  end_time :: datetime
  block_title :: string
  block_type :: string
  moveable :: bool
  importance :: real
  energy_requirement :: real

subsection \<open>\<^verbatim>\<open>_get_current_schedule\<close>\<close>

text \<open>The three sample blocks of a day; weekdays only.\<close>

definition sample_blocks :: "int \<Rightarrow> ScheduleBlock list" where
  "sample_blocks current_date =
     (if weekday current_date < 5 then
        [\<lparr>start_time = current_date * 1440 + 9 * 60, end_time = current_date * 1440 + 9 * 60 + 30,
          block_title = ''Daily Standup'', block_type = ''meeting'', moveable = False,
          importance = 0.6, energy_requirement = 0.3\<rparr>,
         \<lparr>start_time = current_date * 1440 + 12 * 60, end_time = current_date * 1440 + 12 * 60 + 60,
          block_title = ''Client Lunch Meeting'', block_type = ''meeting'', moveable = True,
          importance = 0.8, energy_requirement = 0.7\<rparr>,
         \<lparr>start_time = current_date * 1440 + 14 * 60, end_time = current_date * 1440 + 14 * 60 + 120,
          block_title = ''Deep Work Session'', block_type = ''task'', moveable = True,
          importance = 0.9, energy_requirement = 0.9\<rparr>]
      else [])"

text \<open>The block of one task row; multiplying a NULL estimate raises \<^verbatim>\<open>TypeError\<close>.\<close>

definition task_block :: "Task \<Rightarrow> exn + ScheduleBlock list" where
  "task_block task =
     (case task_due_date task of
        None \<Rightarrow> Inr []
      | Some due \<Rightarrow>
          (case task_estimated_pomodoros task of
             None \<Rightarrow> Inl (TypeError ''unsupported operand type(s) for *: NoneType and int'')
           | Some n \<Rightarrow>
               (let task_time = due - 120; duration = n * 25
                in Inr [\<lparr>start_time = task_time, end_time = task_time + duration,
                         block_title = task_title task, block_type = ''task'', moveable = True,
                         importance = (if task_priority task = ''high'' then 0.8 else 0.6),
                         energy_requirement = 0.7\<rparr>])))"

fun task_blocks :: "Task list \<Rightarrow> exn + ScheduleBlock list" where
  "task_blocks [] = Inr []"
| "task_blocks (task # tasks) =
     bind_exn (task_block task) (\<lambda>b. bind_exn (task_blocks tasks) (\<lambda>bs. Inr (b @ bs)))"

text \<open>
  The second argument is the outcome of the query for the pending and in-progress tasks
  due in the range. Any exception gives the empty schedule.
\<close>

definition get_current_schedule ::
  "datetime \<times> datetime \<Rightarrow> exn + Task list \<Rightarrow> ScheduleBlock list" where
  "get_current_schedule date_range q =
     (let samples = concat (map sample_blocks [date_of (fst date_range)..date_of (snd date_range)])
      in case bind_exn q task_blocks of
           Inl e \<Rightarrow> []
         | Inr bs \<Rightarrow> samples @ bs)"

subsection \<open>\<^verbatim>\<open>_identify_optimization_opportunities\<close> and its helpers\<close>

text \<open>\<^verbatim>\<open>patterns.hourly_productivity[h]['avg_focus_score']\<close>; a missing hour raises \<^verbatim>\<open>KeyError\<close>.\<close>

definition score_at :: "ProductivityPattern \<Rightarrow> nat \<Rightarrow> exn + real" where
  "score_at patterns h =
     (case map_of (hourly_productivity patterns) h of
        None \<Rightarrow> Inl (KeyError (show_nat h))
      | Some d \<Rightarrow> Inr (avg_focus_score d))"

definition find_optimal_time_slot :: "ScheduleBlock \<Rightarrow> ProductivityPattern \<Rightarrow> exn + nat" where
  "find_optimal_time_slot block patterns =
     (if energy_requirement block > 0.7
      then py_max_key (score_at patterns) (peak_hours patterns)
      else py_min_key (score_at patterns) [9..<18])"

definition find_meeting_alternative_time :: "ScheduleBlock \<Rightarrow> ProductivityPattern \<Rightarrow> exn + nat" where
  "find_meeting_alternative_time block patterns =
     (let working_hours = [9..<18];
          non_peak_hours = filter (\<lambda>h. h \<notin> set (peak_hours patterns)) working_hours
      in if non_peak_hours \<noteq> []
         then py_min_key (\<lambda>h. bind_exn (score_at patterns h) (\<lambda>v. Inr \<bar>v - 0.6\<bar>)) non_peak_hours
         else Inr (hour_of (start_time block)))"

text \<open>The first \<^verbatim>\<open>if\<close> of the loop body: a high-energy task in a low-energy hour.\<close>

definition reschedule_candidates :: "ProductivityPattern \<Rightarrow> ScheduleBlock \<Rightarrow> exn + ScheduleOptimization list" where
  "reschedule_candidates patterns block =
     (let block_hour = hour_of (start_time block)
      in if block_type block = ''task'' \<and> energy_requirement block > 0.7
            \<and> block_hour \<in> set (low_energy_hours patterns)
         then bind_exn (find_optimal_time_slot block patterns) (\<lambda>suggested_hour.
                if suggested_hour \<noteq> block_hour
                then bind_exn (replace_hour (start_time block) suggested_hour) (\<lambda>st.
                       Inr [\<lparr>optimization_type = RESCHEDULE_LOW_ENERGY_TASKS,
                             opt_title = ''Reschedule '' @ block_title block,
                             opt_description = ''Move high-energy task from low-energy time to optimal slot'',
                             opt_confidence = 0.85, impact_score = 0.7,
                             original_time = Some (start_time block),
                             suggested_time = Some st, duration = None\<rparr>])
                else Inr [])
         else Inr [])"

text \<open>The second \<^verbatim>\<open>if\<close> of the loop body: a meeting in a peak hour.\<close>

definition meeting_candidates :: "ProductivityPattern \<Rightarrow> ScheduleBlock \<Rightarrow> exn + ScheduleOptimization list" where
  "meeting_candidates patterns block =
     (let block_hour = hour_of (start_time block)
      in if block_type block = ''meeting'' \<and> block_hour \<in> set (peak_hours patterns)
            \<and> importance block < 0.9
         then bind_exn (find_meeting_alternative_time block patterns) (\<lambda>alternative_hour.
                if alternative_hour \<noteq> block_hour
                then bind_exn (replace_hour (start_time block) alternative_hour) (\<lambda>st.
                       Inr [\<lparr>optimization_type = MOVE_MEETING_FROM_PEAK_FOCUS,
                             opt_title = ''Reschedule '' @ block_title block,
                             opt_description = ''Move meeting out of peak productivity hours'',
                             opt_confidence = 0.8, impact_score = 0.6,
                             original_time = Some (start_time block),
                             suggested_time = Some st, duration = None\<rparr>])
                else Inr [])
         else Inr [])"

text \<open>The loop over the schedule; blocks that cannot be moved are skipped.\<close>

fun block_candidates :: "ProductivityPattern \<Rightarrow> ScheduleBlock list \<Rightarrow> exn + ScheduleOptimization list" where
  "block_candidates patterns [] = Inr []"
| "block_candidates patterns (block # rest) =
     (if \<not> moveable block then block_candidates patterns rest
      else bind_exn (reschedule_candidates patterns block) (\<lambda>a.
           bind_exn (meeting_candidates patterns block) (\<lambda>b.
           bind_exn (block_candidates patterns rest) (\<lambda>c. Inr (a @ b @ c)))))"

definition focus_candidate ::
  "datetime \<Rightarrow> ScheduleBlock list \<Rightarrow> focus_block \<Rightarrow> exn + ScheduleOptimization list" where
  "focus_candidate now schedule fb =
     (let conflicts = filter (\<lambda>block. start_hour fb \<le> hour_of (start_time block)
                                \<and> hour_of (start_time block) < end_hour fb
                                \<and> moveable block \<and> importance block < 0.7) schedule
      in if length conflicts \<le> 1
         then bind_exn (replace_hour_sharp now (start_hour fb)) (\<lambda>st.
                Inr [\<lparr>optimization_type = BLOCK_FOCUS_TIME,
                      opt_title = ''Block focus time '' @ show_nat (start_hour fb) @ '':00-''
                                    @ show_nat (end_hour fb) @ '':00'',
                      opt_description = ''Create dedicated focus block during high-productivity time'',
                      opt_confidence = 0.9, impact_score = 0.8,
                      original_time = None, suggested_time = Some st,
                      duration = Some ((int (end_hour fb) - int (start_hour fb)) * 60)\<rparr>])
         else Inr [])"

fun focus_candidates ::
  "datetime \<Rightarrow> ScheduleBlock list \<Rightarrow> focus_block list \<Rightarrow> exn + ScheduleOptimization list" where
  "focus_candidates now schedule [] = Inr []"
| "focus_candidates now schedule (fb # fbs) =
     bind_exn (focus_candidate now schedule fb) (\<lambda>a.
     bind_exn (focus_candidates now schedule fbs) (\<lambda>b. Inr (a @ b)))"

definition identify_focus_block_opportunities ::
  "datetime \<Rightarrow> ScheduleBlock list \<Rightarrow> ProductivityPattern \<Rightarrow> exn + ScheduleOptimization list" where
  "identify_focus_block_opportunities now schedule patterns =
     focus_candidates now schedule (optimal_focus_blocks patterns)"

text \<open>
  \<^verbatim>\<open>daily_meetings\<close> is a dictionary filled in schedule order; its items are visited in
  the order in which the days were first seen, so it is an association list here.
\<close>

definition add_meeting :: "(int \<times> ScheduleBlock list) list \<Rightarrow> ScheduleBlock \<Rightarrow> (int \<times> ScheduleBlock list) list" where
  "add_meeting daily_meetings meeting =
     (let day = date_of (start_time meeting)
      in if map_of daily_meetings day = None then daily_meetings @ [(day, [meeting])]
         else map (\<lambda>(d, ms). if d = day then (d, ms @ [meeting]) else (d, ms)) daily_meetings)"

definition consolidation_candidate :: "int \<times> ScheduleBlock list \<Rightarrow> ScheduleOptimization list" where
  "consolidation_candidate item =
     (let day = fst item; day_meetings = snd item
      in if length day_meetings \<ge> 2
         then (let start_times = map (\<lambda>m. hour_of (start_time m)) day_meetings;
                   time_spread = foldl max 0 start_times - foldl min (start_times ! 0) start_times
               in if time_spread > 4
                  then [\<lparr>optimization_type = CONSOLIDATE_MEETINGS,
                          opt_title = ''Consolidate meetings on '' @ day_name day,
                          opt_description = ''Group meetings together to create longer focus periods'',
                          opt_confidence = 0.7, impact_score = 0.5,
                          original_time = None, suggested_time = None, duration = None\<rparr>]
                  else [])
         else [])"

definition identify_meeting_consolidation :: "ScheduleBlock list \<Rightarrow> ScheduleOptimization list" where
  "identify_meeting_consolidation schedule =
     (let meetings = filter (\<lambda>block. block_type block = ''meeting'' \<and> moveable block) schedule;
          daily_meetings = foldl add_meeting [] meetings
      in concat (map consolidation_candidate daily_meetings))"

text \<open>
  The whole body is inside one \<^verbatim>\<open>try\<close>: an exception anywhere gives the empty list.
  \<open>now\<close> is the clock reading used for the suggested time of a focus block.
\<close>

definition identify_optimization_opportunities ::
  "datetime \<Rightarrow> ScheduleBlock list \<Rightarrow> ProductivityPattern \<Rightarrow> ScheduleOptimization list" where
  "identify_optimization_opportunities now schedule patterns =
     (case bind_exn (block_candidates patterns schedule) (\<lambda>optimizations.
           bind_exn (identify_focus_block_opportunities now schedule patterns) (\<lambda>focus_opportunities.
           Inr (sort_desc_by impact_score
                  (optimizations @ focus_opportunities @ identify_meeting_consolidation schedule))))
      of Inl e \<Rightarrow> [] | Inr ranked \<Rightarrow> ranked)"

subsection \<open>Execution of one optimisation\<close>

record block_details =
  details_id :: int
  details_start_time :: "datetime option"
  duration_minutes :: "int option"
  details_title :: string

text \<open>
  The dictionary an executor returns. A key that a dictionary does not have is \<open>None\<close>;
  ISO time strings are kept as the times they print.
\<close>

record optimization_result =
  result_type :: string
  status :: string
  message :: "string option"
  error :: "string option"
  result_original_time :: "datetime option"
  result_suggested_time :: "datetime option"
  calendar_integration :: "string option"
  consolidation_proposal :: "string option"
  details :: "block_details option"
  productivity_gain_estimate :: "real option"
  result_confidence :: "real option"

definition empty_result :: "string \<Rightarrow> string \<Rightarrow> optimization_result" where
  "empty_result ty st =
     \<lparr>result_type = ty, status = st, message = None, error = None,
      result_original_time = None, result_suggested_time = None,
      calendar_integration = None, consolidation_proposal = None, details = None,
      productivity_gain_estimate = None, result_confidence = None\<rparr>"

definition reschedule_meeting :: "ScheduleOptimization \<Rightarrow> optimization_result" where
  "reschedule_meeting opportunity =
     (empty_result ''meeting_reschedule'' ''suggested'')
       \<lparr>result_original_time := original_time opportunity,
        result_suggested_time := suggested_time opportunity,
        message := Some ''Reschedule suggestion sent to meeting organizer'',
        calendar_integration := Some ''mock_success''\<rparr>"

definition reschedule_task :: "ScheduleOptimization \<Rightarrow> optimization_result" where
  "reschedule_task opportunity =
     (empty_result ''task_reschedule'' ''rescheduled'')
       \<lparr>result_original_time := original_time opportunity,
        result_suggested_time := suggested_time opportunity,
        message := Some ''Task rescheduled to optimal productivity time''\<rparr>"

definition consolidate_meetings :: "ScheduleOptimization \<Rightarrow> optimization_result" where
  "consolidate_meetings opportunity =
     (empty_result ''meeting_consolidation'' ''suggested'')
       \<lparr>message := Some ''Meeting consolidation suggestions sent'',
        consolidation_proposal :=
          Some ''Group meetings between 2-4 PM to create morning focus block''\<rparr>"

text \<open>The title of a focus task; the emoji that precedes it in the source is not ASCII and left out.\<close>

definition focus_block_title :: string where
  "focus_block_title = ''Focus Block''"

text \<open>The row that \<^verbatim>\<open>_create_focus_block\<close> builds; \<^verbatim>\<open>int(user_id)\<close> may raise.\<close>

definition focus_task :: "string \<Rightarrow> ScheduleOptimization \<Rightarrow> exn + Task" where
  "focus_task user_id opportunity =
     bind_exn (py_int user_id) (\<lambda>uid.
       Inr \<lparr>task_id = 0, task_user_id = uid, task_title = focus_block_title,
            task_description = ''Dedicated focus time - '' @ opt_description opportunity,
            task_status = ''pending'', task_priority = ''high'',
            task_estimated_pomodoros =
              Some (case duration opportunity of None \<Rightarrow> 2
                    | Some d \<Rightarrow> if d \<noteq> 0 then d div 25 else 2),
            task_due_date = suggested_time opportunity\<rparr>)"

text \<open>
  What goes wrong inside the \<^verbatim>\<open>try\<close> of \<^verbatim>\<open>_create_focus_block\<close>, if anything, and the stored
  row and the new table otherwise.
\<close>

definition store_focus_task ::
  "(Task list \<Rightarrow> Task \<Rightarrow> exn option) \<Rightarrow> string \<Rightarrow> Task list \<Rightarrow> ScheduleOptimization
     \<Rightarrow> exn + (Task \<times> Task list)" where
  "store_focus_task fails user_id table opportunity =
     bind_exn (focus_task user_id opportunity) (db_add_commit fails table)"

text \<open>\<^verbatim>\<open>_create_focus_block\<close> catches every exception itself and reports it in its result.\<close>

definition create_focus_block ::
  "(Task list \<Rightarrow> Task \<Rightarrow> exn option) \<Rightarrow> string \<Rightarrow> Task list \<Rightarrow> ScheduleOptimization
     \<Rightarrow> optimization_result \<times> Task list" where
  "create_focus_block fails user_id table opportunity =
     (case store_focus_task fails user_id table opportunity of
        Inr (row, table') \<Rightarrow>
          ((empty_result ''focus_block_created'' ''created'')
             \<lparr>details := Some \<lparr>details_id = task_id row,
                                details_start_time = suggested_time opportunity,
                                duration_minutes = duration opportunity,
                                details_title = task_title row\<rparr>,
              message := Some ''Focus block created successfully''\<rparr>,
           table')
      | Inl e \<Rightarrow>
          ((empty_result ''focus_block_created'' ''failed'')\<lparr>error := Some (exn_str e)\<rparr>, table))"

text \<open>The type dispatch inside the \<^verbatim>\<open>try\<close> of \<^verbatim>\<open>_execute_optimization\<close>.\<close>

definition dispatch_optimization ::
  "(Task list \<Rightarrow> Task \<Rightarrow> exn option) \<Rightarrow> string \<Rightarrow> Task list \<Rightarrow> ScheduleOptimization
     \<Rightarrow> exn + (optimization_result \<times> Task list)" where
  "dispatch_optimization fails user_id table opportunity =
     (if optimization_type opportunity = MOVE_MEETING_FROM_PEAK_FOCUS
        then Inr (reschedule_meeting opportunity, table)
      else if optimization_type opportunity = BLOCK_FOCUS_TIME
        then Inr (create_focus_block fails user_id table opportunity)
      else if optimization_type opportunity = RESCHEDULE_LOW_ENERGY_TASKS
        then Inr (reschedule_task opportunity, table)
      else if optimization_type opportunity = CONSOLIDATE_MEETINGS
        then Inr (consolidate_meetings opportunity, table)
      else Inr ((empty_result (type_value (optimization_type opportunity)) ''not_implemented'')
                  \<lparr>message := Some ''Optimization type not yet implemented''\<rparr>, table))"

definition execute_optimization ::
  "(Task list \<Rightarrow> Task \<Rightarrow> exn option) \<Rightarrow> string \<Rightarrow> Task list \<Rightarrow> ScheduleOptimization
     \<Rightarrow> optimization_result \<times> Task list" where
  "execute_optimization fails user_id table opportunity =
     (case dispatch_optimization fails user_id table opportunity of
        Inr (result, table') \<Rightarrow>
          (result\<lparr>productivity_gain_estimate := Some (impact_score opportunity),
                  result_confidence := Some (opt_confidence opportunity)\<rparr>, table')
      | Inl e \<Rightarrow>
          ((empty_result (type_value (optimization_type opportunity)) ''failed'')
             \<lparr>error := Some (exn_str e)\<rparr>, table))"

subsection \<open>\<^verbatim>\<open>_calculate_optimization_impact\<close>\<close>

record impact_summary =
  total_productivity_gain :: real
  optimizations_count :: nat
  successful_optimizations :: "nat option"
  average_confidence :: "real option"
  estimated_focus_time_gained :: "int option"

text \<open>
  The minutes one result adds to \<^verbatim>\<open>estimated_focus_time_gained\<close>: the generator expression
  keeps focus-block results only; a result without details counts 0, and a duration that
  is \<^verbatim>\<open>None\<close> cannot be added, which raises \<^verbatim>\<open>TypeError\<close>.
\<close>

fun focus_minutes :: "optimization_result list \<Rightarrow> exn + int" where
  "focus_minutes [] = Inr 0"
| "focus_minutes (r # rs) =
     (if result_type r = ''focus_block_created''
      then (case details r of
              None \<Rightarrow> focus_minutes rs
            | Some d \<Rightarrow>
                (case duration_minutes d of
                   None \<Rightarrow> Inl (TypeError ''unsupported operand type(s) for +: int and NoneType'')
                 | Some m \<Rightarrow> bind_exn (focus_minutes rs) (\<lambda>t. Inr (m + t))))
      else focus_minutes rs)"

definition calculate_optimization_impact :: "optimization_result list \<Rightarrow> exn + impact_summary" where
  "calculate_optimization_impact optimization_results =
     (if optimization_results = []
      then Inr \<lparr>total_productivity_gain = 0, optimizations_count = 0,
                successful_optimizations = None, average_confidence = None,
                estimated_focus_time_gained = None\<rparr>
      else bind_exn (focus_minutes optimization_results) (\<lambda>minutes.
        Inr \<lparr>total_productivity_gain =
               sum_list (map (\<lambda>r. case productivity_gain_estimate r of None \<Rightarrow> 0 | Some g \<Rightarrow> g)
                             optimization_results),
             optimizations_count = length optimization_results,
             successful_optimizations =
               Some (length (filter (\<lambda>r. status r \<in> set [''completed'', ''created'', ''rescheduled''])
                                    optimization_results)),
             average_confidence =
               Some (mean (map (\<lambda>r. case result_confidence r of None \<Rightarrow> 0 | Some c \<Rightarrow> c)
                               optimization_results)),
             estimated_focus_time_gained = Some minutes\<rparr>))"

subsection \<open>\<^verbatim>\<open>optimize_schedule\<close>\<close>

text \<open>
  What a run meets outside the service: the outcomes of the two queries, the clock, the
  task table with the failures of its inserts, and the cache (\<open>None\<close>: no client is
  configured; \<open>Some ok\<close>: whether the write succeeds).
\<close>

record sched_env =
  sessions_query :: "exn + PomodoroSession list"
  tasks_query :: "exn + Task list"
  clock :: datetime
  stored_tasks :: "Task list"
  insert_fails :: "Task list \<Rightarrow> Task \<Rightarrow> exn option"
  redis :: "bool option"

record run_result =
  executed_optimizations :: "optimization_result list"
  suggested_optimizations :: "ScheduleOptimization list"
  run_impact_summary :: impact_summary
  run_productivity_gain_estimate :: real

record cached_result =
  cached_executed :: "optimization_result list"
  cached_suggested :: "ScheduleOptimization list"
  cached_impact_summary :: impact_summary

text \<open>A run leaves its return value, the task table and, if the write succeeded, a cache entry.\<close>

record run_outcome =
  returned :: run_result
  final_tasks :: "Task list"
  cache_entry :: "cached_result option"

text \<open>\<^verbatim>\<open>_cache_optimization_results\<close>: a failing write is logged and swallowed.\<close>

definition cache_optimization_results :: "bool option \<Rightarrow> cached_result \<Rightarrow> cached_result option" where
  "cache_optimization_results r results =
     (case r of None \<Rightarrow> None | Some ok \<Rightarrow> if ok then Some results else None)"

text \<open>The \<^verbatim>\<open>for\<close> loop of \<^verbatim>\<open>optimize_schedule\<close> with its two accumulators and the task table.\<close>

fun execution_loop ::
  "(Task list \<Rightarrow> Task \<Rightarrow> exn option) \<Rightarrow> string \<Rightarrow> ScheduleOptimization list
     \<Rightarrow> optimization_result list \<Rightarrow> nat \<Rightarrow> Task list
     \<Rightarrow> optimization_result list \<times> nat \<times> Task list" where
  "execution_loop fails user_id [] optimization_results executed_count table =
     (optimization_results, executed_count, table)"
| "execution_loop fails user_id (opportunity # rest) optimization_results executed_count table =
     (if opt_confidence opportunity > 0.8 \<and> impact_score opportunity > 0.6 \<and> executed_count < 5
      then (case execute_optimization fails user_id table opportunity of
              (result, table') \<Rightarrow>
                execution_loop fails user_id rest (optimization_results @ [result])
                               (executed_count + 1) table')
      else execution_loop fails user_id rest optimization_results executed_count table)"

text \<open>The ranked candidates of a run: the list the \<^verbatim>\<open>for\<close> loop iterates over.\<close>

definition ranked_opportunities :: "sched_env \<Rightarrow> datetime \<times> datetime \<Rightarrow> ScheduleOptimization list" where
  "ranked_opportunities env date_range =
     (let productivity_map = get_productivity_patterns (sessions_query env);
          current_schedule = get_current_schedule date_range (tasks_query env)
      in identify_optimization_opportunities (clock env) current_schedule productivity_map)"

text \<open>
  The outer \<^verbatim>\<open>except\<close> logs and re-raises, so an exception of the body is the outcome of
  the call.
\<close>

definition optimize_schedule :: "sched_env \<Rightarrow> string \<Rightarrow> datetime \<times> datetime \<Rightarrow> exn + run_outcome" where
  "optimize_schedule env user_id date_range =
     (let optimizations = ranked_opportunities env date_range
      in case execution_loop (insert_fails env) user_id optimizations [] 0 (stored_tasks env) of
           (optimization_results, executed_count, table) \<Rightarrow>
             bind_exn (calculate_optimization_impact optimization_results) (\<lambda>summary.
               Inr \<lparr>returned =
                      \<lparr>executed_optimizations = optimization_results,
                       suggested_optimizations = drop executed_count optimizations,
                       run_impact_summary = summary,
                       run_productivity_gain_estimate = total_productivity_gain summary\<rparr>,
                    final_tasks = table,
                    cache_entry =
                      cache_optimization_results (redis env)
                        \<lparr>cached_executed = optimization_results,
                         cached_suggested = drop executed_count optimizations,
                         cached_impact_summary = summary\<rparr>\<rparr>))"

text \<open>
  The candidates the loop hands to the executor, in order: the loop of
  \<^const>\<open>execution_loop\<close> with the same guard, collecting the candidates instead of their
  results.
\<close>

fun selected_for_execution :: "ScheduleOptimization list \<Rightarrow> nat \<Rightarrow> ScheduleOptimization list" where
  "selected_for_execution [] executed_count = []"
| "selected_for_execution (opportunity # rest) executed_count =
     (if opt_confidence opportunity > 0.8 \<and> impact_score opportunity > 0.6 \<and> executed_count < 5
      then opportunity # selected_for_execution rest (executed_count + 1)
      else selected_for_execution rest executed_count)"


section \<open>Predictive tasks (\<^verbatim>\<open>predictive_tasks_service.py\<close>)\<close>

datatype PredictionSource =
  PATTERN_BASED | CALENDAR_BASED | GOAL_BASED | DEADLINE_BASED | AI_GENERATED

record PredictedTask =
  title :: string
  description :: string
  estimated_duration :: int
  confidence :: real
  source :: PredictionSource
  priority :: string
  due_date :: "datetime option"
  category :: string
  reasoning :: string
  dependencies :: "string list"

text \<open>
  The dictionary of a prediction. The keys that the service reads with \<^verbatim>\<open>.get\<close> may be
  missing (\<open>None\<close>); \<^verbatim>\<open>asdict\<close> sets all of them.
\<close>

record prediction =
  pred_title :: string
  pred_description :: string
  pred_estimated_duration :: "int option"
  pred_confidence :: real
  pred_source :: PredictionSource
  pred_priority :: "string option"
  pred_due_date :: "datetime option"
  pred_category :: string
  pred_reasoning :: "string option"
  pred_dependencies :: "string list"

text \<open>The same dictionary once \<^verbatim>\<open>_rank_by_importance\<close> has added its score.\<close>

record scored_prediction = prediction +
  importance_score :: real

definition asdict :: "PredictedTask \<Rightarrow> prediction" where
  "asdict t =
     \<lparr>pred_title = title t, pred_description = description t,
      pred_estimated_duration = Some (estimated_duration t),
      pred_confidence = confidence t, pred_source = source t,
      pred_priority = Some (priority t), pred_due_date = due_date t,
      pred_category = category t, pred_reasoning = Some (reasoning t),
      pred_dependencies = dependencies t\<rparr>"

subsection \<open>\<^verbatim>\<open>_combine_predictions\<close>\<close>

definition title_key :: "string \<Rightarrow> string" where
  "title_key t = strip (lower t)"

text \<open>The second loop, with \<^verbatim>\<open>seen_titles\<close> and \<^verbatim>\<open>unique_predictions\<close> as accumulators.\<close>

fun unique_loop :: "prediction list \<Rightarrow> string set \<Rightarrow> prediction list \<Rightarrow> prediction list" where
  "unique_loop [] seen_titles unique_predictions = unique_predictions"
| "unique_loop (pred # rest) seen_titles unique_predictions =
     (if title_key (pred_title pred) \<notin> seen_titles
      then unique_loop rest (insert (title_key (pred_title pred)) seen_titles)
                       (unique_predictions @ [pred])
      else unique_loop rest seen_titles unique_predictions)"

definition combine_predictions :: "PredictedTask list list \<Rightarrow> prediction list" where
  "combine_predictions predictions_list =
     (let combined = map asdict (concat predictions_list)
      in unique_loop combined {} [])"

subsection \<open>\<^verbatim>\<open>_rank_by_importance\<close>\<close>

text \<open>\<^verbatim>\<open>priority_weights.get(p, 0.5)\<close> and \<^verbatim>\<open>source_weights.get(s, 0.5)\<close>.\<close>

definition priority_weight :: "string \<Rightarrow> real" where
  "priority_weight p =
     (if p = ''low'' then 0.2 else if p = ''medium'' then 0.5 else if p = ''high'' then 0.8
      else if p = ''critical'' then 1.0 else 0.5)"

fun source_weight :: "PredictionSource \<Rightarrow> real" where
  "source_weight DEADLINE_BASED = 0.9"
| "source_weight CALENDAR_BASED = 0.8"
| "source_weight PATTERN_BASED = 0.7"
| "source_weight GOAL_BASED = 0.6"
| "source_weight AI_GENERATED = 0.5"

text \<open>\<^verbatim>\<open>(due_date - now).days\<close>: whole days, rounded down.\<close>

definition days_until :: "datetime \<Rightarrow> datetime \<Rightarrow> int" where
  "days_until due now = (due - now) div 1440"

definition urgency_bonus :: "datetime \<Rightarrow> datetime option \<Rightarrow> real" where
  "urgency_bonus now due =
     (case due of
        None \<Rightarrow> 0
      | Some d \<Rightarrow>
          (let days_until_due = days_until d now
           in if days_until_due \<le> 1 then 0.3
              else if days_until_due \<le> 3 then 0.2
              else if days_until_due \<le> 7 then 0.1 else 0))"

definition priority_or_medium :: "'a prediction_scheme \<Rightarrow> string" where
  "priority_or_medium pred = (case pred_priority pred of None \<Rightarrow> ''medium'' | Some p \<Rightarrow> p)"

text \<open>The score the loop body reaches, from the four quantities it adds up.\<close>

definition weighted_score :: "real \<Rightarrow> real \<Rightarrow> real \<Rightarrow> real \<Rightarrow> real" where
  "weighted_score conf pw bonus sw = min 1.0 (0.0 + conf * 0.4 + pw * 0.3 + bonus + sw * 0.2)"

definition importance_of :: "datetime \<Rightarrow> prediction \<Rightarrow> real" where
  "importance_of now pred =
     weighted_score (pred_confidence pred) (priority_weight (priority_or_medium pred))
                    (urgency_bonus now (pred_due_date pred)) (source_weight (pred_source pred))"

text \<open>
  Every prediction is scored against its own reading of the clock: \<open>nows i\<close> is
  \<^verbatim>\<open>datetime.now()\<close> in iteration \<open>i\<close>.
\<close>

definition rank_by_importance :: "(nat \<Rightarrow> datetime) \<Rightarrow> prediction list \<Rightarrow> scored_prediction list" where
  "rank_by_importance nows predictions =
     sort_desc_by importance_score
       (map (\<lambda>(i, pred). prediction.extend pred
                            (scored_prediction.fields (importance_of (nows i) pred)))
            (enumerate 0 predictions))"

subsection \<open>\<^verbatim>\<open>_auto_create_task\<close>\<close>

record created_task =
  created_id :: int
  created_title :: string
  created_description :: string
  created_confidence :: real
  created_source :: PredictionSource
  created_auto :: bool

text \<open>\<^verbatim>\<open>prediction.get('estimated_duration', 25)\<close>.\<close>

definition duration_or_default :: "'a prediction_scheme \<Rightarrow> int" where
  "duration_or_default pred = (case pred_estimated_duration pred of None \<Rightarrow> 25 | Some d \<Rightarrow> d)"

text \<open>
  The row built inside the \<^verbatim>\<open>try\<close>; the status is the column default. The description
  contains the two characters backslash and n twice, as the source writes them.
\<close>

definition new_task :: "string \<Rightarrow> 'a prediction_scheme \<Rightarrow> exn + Task" where
  "new_task user_id pred =
     bind_exn (py_int user_id) (\<lambda>uid.
       Inr \<lparr>task_id = 0, task_user_id = uid, task_title = pred_title pred,
            task_description =
              ''[AUTO-GENERATED] '' @ pred_description pred
                @ [CHR 0x5C, CHR ''n'', CHR 0x5C, CHR ''n''] @ ''Reasoning: ''
                @ (case pred_reasoning pred of None \<Rightarrow> [] | Some r \<Rightarrow> r),
            task_status = ''pending'',
            task_priority = priority_or_medium pred,
            task_estimated_pomodoros = Some (max 1 (duration_or_default pred div 25)),
            task_due_date = pred_due_date pred\<rparr>)"

text \<open>The \<^verbatim>\<open>except\<close> branch logs and re-raises: an exception is the outcome of the call.\<close>

definition auto_create_task ::
  "(Task list \<Rightarrow> Task \<Rightarrow> exn option) \<Rightarrow> string \<Rightarrow> Task list \<Rightarrow> 'a prediction_scheme
     \<Rightarrow> exn + (created_task \<times> Task list)" where
  "auto_create_task fails user_id table pred =
     bind_exn (new_task user_id pred) (\<lambda>row0.
     bind_exn (db_add_commit fails table row0) (\<lambda>(row, table').
       Inr (\<lparr>created_id = task_id row, created_title = task_title row,
              created_description = task_description row,
              created_confidence = pred_confidence pred,
              created_source = pred_source pred, created_auto = True\<rparr>, table')))"

subsection \<open>\<^verbatim>\<open>generate_predictive_tasks\<close>\<close>

text \<open>
  The four generators read the clock and the sample calendar, goals and deadlines; here
  the outcome of the \<^verbatim>\<open>try\<close> body of each is an input. Each generator catches its own
  exception and returns the empty list instead.
\<close>

definition generator_result :: "exn + PredictedTask list \<Rightarrow> PredictedTask list" where
  "generator_result body = (case body of Inl e \<Rightarrow> [] | Inr predictions \<Rightarrow> predictions)"

text \<open>
  What a run meets outside the service: the exception raised while the context is
  gathered (if any; \<^verbatim>\<open>_gather_prediction_context\<close> re-raises it), the outcomes of the four
  generator bodies in declaration order, the clock, the task table and the cache.
\<close>

record pred_env =
  context_failure :: "exn option"
  pattern_body :: "exn + PredictedTask list"
  calendar_body :: "exn + PredictedTask list"
  goal_body :: "exn + PredictedTask list"
  deadline_body :: "exn + PredictedTask list"
  score_clock :: "nat \<Rightarrow> datetime"
  pred_stored_tasks :: "Task list"
  pred_insert_fails :: "Task list \<Rightarrow> Task \<Rightarrow> exn option"
  pred_redis :: "bool option"

record prediction_summary =
  total_predictions :: nat
  high_confidence_count :: nat
  sources_used :: "PredictionSource set"

record prediction_result =
  auto_created_tasks :: "created_task list"
  suggested_tasks :: "scored_prediction list"
  summary :: prediction_summary

record prediction_outcome =
  pred_returned :: prediction_result
  pred_final_tasks :: "Task list"
  pred_cache_entry :: "scored_prediction list option"

definition cache_predictions :: "bool option \<Rightarrow> scored_prediction list \<Rightarrow> scored_prediction list option" where
  "cache_predictions r predictions =
     (case r of None \<Rightarrow> None | Some ok \<Rightarrow> if ok then Some predictions else None)"

text \<open>The ranked predictions of a run.\<close>

definition ranked_tasks_of :: "pred_env \<Rightarrow> scored_prediction list" where
  "ranked_tasks_of env =
     (let predictions = [generator_result (pattern_body env), generator_result (calendar_body env),
                         generator_result (goal_body env), generator_result (deadline_body env)];
          combined_tasks = combine_predictions predictions
      in rank_by_importance (score_clock env) combined_tasks)"

text \<open>
  The loop over \<^verbatim>\<open>ranked_tasks[:3]\<close>. Nothing catches an exception of
  \<^const>\<open>auto_create_task\<close> here, so it ends the loop.
\<close>

fun auto_create_loop ::
  "(Task list \<Rightarrow> Task \<Rightarrow> exn option) \<Rightarrow> string \<Rightarrow> scored_prediction list
     \<Rightarrow> created_task list \<Rightarrow> Task list \<Rightarrow> exn + (created_task list \<times> Task list)" where
  "auto_create_loop fails user_id [] auto_created table = Inr (auto_created, table)"
| "auto_create_loop fails user_id (task # rest) auto_created table =
     (if pred_confidence task > 0.85
      then bind_exn (auto_create_task fails user_id table task) (\<lambda>(created, table').
             auto_create_loop fails user_id rest (auto_created @ [created]) table')
      else auto_create_loop fails user_id rest auto_created table)"

text \<open>The outer \<^verbatim>\<open>except\<close> logs and re-raises.\<close>

definition generate_predictive_tasks :: "pred_env \<Rightarrow> string \<Rightarrow> exn + prediction_outcome" where
  "generate_predictive_tasks env user_id =
     (case context_failure env of
        Some e \<Rightarrow> Inl e
      | None \<Rightarrow>
          (let ranked_tasks = ranked_tasks_of env
           in bind_exn (auto_create_loop (pred_insert_fails env) user_id (take 3 ranked_tasks) []
                                         (pred_stored_tasks env)) (\<lambda>(auto_created, table).
                Inr \<lparr>pred_returned =
                       \<lparr>auto_created_tasks = auto_created,
                        suggested_tasks = take 10 ranked_tasks,
                        summary =
                          \<lparr>total_predictions = length ranked_tasks,
                           high_confidence_count =
                             length (filter (\<lambda>t. pred_confidence t > 0.8) ranked_tasks),
                           sources_used = set (map pred_source ranked_tasks)\<rparr>\<rparr>,
                     pred_final_tasks = table,
                     pred_cache_entry = cache_predictions (pred_redis env) ranked_tasks\<rparr>)))"


section \<open>Auxiliary notions and sample inputs\<close>

text \<open>Scenario A of the specification: the hourly averages, and two sessions that produce them.\<close>

definition scenario_A_score :: "nat \<Rightarrow> real" where
  "scenario_A_score h = (if h = 10 then 0.9 else if h = 11 then 0.95 else 0.5)"

definition scenario_A_sessions :: "PomodoroSession list" where
  "scenario_A_sessions =
     [\<lparr>focus_score = Some 0.9, interrupted = False, completed_at = Some (1064160000 + 10 * 60)\<rparr>,
      \<lparr>focus_score = Some 0.95, interrupted = True, completed_at = Some (1064160000 + 1440 + 11 * 60 + 30)\<rparr>]"

text \<open>The confidence and impact gate of the execution loop.\<close>

definition passes_gate :: "ScheduleOptimization \<Rightarrow> bool" where
  "passes_gate opp = (opt_confidence opp > 0.8 \<and> impact_score opp > 0.6)"

text \<open>
  What the four generators produce: one of four pairs of confidence and impact, and a
  duration on every focus block.
\<close>

definition generated_shape :: "ScheduleOptimization \<Rightarrow> bool" where
  "generated_shape opp =
     ((opt_confidence opp, impact_score opp) \<in> set [(0.85, 0.7), (0.8, 0.6), (0.9, 0.8), (0.7, 0.5)]
      \<and> (optimization_type opp = BLOCK_FOCUS_TIME \<longrightarrow> duration opp \<noteq> None))"

text \<open>A result whose details, if any, carry a duration.\<close>

definition has_minutes :: "optimization_result \<Rightarrow> bool" where
  "has_minutes r = (case details r of None \<Rightarrow> True | Some d \<Rightarrow> duration_minutes d \<noteq> None)"

text \<open>
  A sample run: three sessions that make 10, 11 and 12 peak hours, one weekday in the
  range, no task rows, and a task table that refuses the row of the first focus block.
\<close>

definition demo_sessions :: "PomodoroSession list" where
  "demo_sessions =
     [\<lparr>focus_score = Some 0.9, interrupted = False, completed_at = Some (1064160000 + 10 * 60)\<rparr>,
      \<lparr>focus_score = Some 0.95, interrupted = True, completed_at = Some (1064160000 + 1440 + 11 * 60 + 30)\<rparr>,
      \<lparr>focus_score = Some 0.8, interrupted = False, completed_at = Some (1064160000 + 2880 + 12 * 60 + 5)\<rparr>]"

definition demo_env :: sched_env where
  "demo_env = \<lparr>sessions_query = Inr demo_sessions, tasks_query = Inr [],
               clock = 1064160000 + 7 * 1440 + 8 * 60 + 15, stored_tasks = [],
               insert_fails = (\<lambda>table row. if task_due_date row = Some 1064170680
                                   then Some (DatabaseError ''database is locked'') else None),
               redis = Some True\<rparr>"

definition demo_range :: "datetime \<times> datetime" where
  "demo_range = (1064160000 + 7 * 1440 + 8 * 60 + 15, 1064160000 + 7 * 1440 + 20 * 60)"

definition demo_focus_10 :: ScheduleOptimization where
  "demo_focus_10 = \<lparr>optimization_type = BLOCK_FOCUS_TIME,
     opt_title = ''Block focus time 10:00-12:00'',
     opt_description = ''Create dedicated focus block during high-productivity time'',
     opt_confidence = 0.9, impact_score = 0.8, original_time = None,
     suggested_time = Some 1064170680, duration = Some 120\<rparr>"

definition demo_focus_11 :: ScheduleOptimization where
  "demo_focus_11 = \<lparr>optimization_type = BLOCK_FOCUS_TIME,
     opt_title = ''Block focus time 11:00-13:00'',
     opt_description = ''Create dedicated focus block during high-productivity time'',
     opt_confidence = 0.9, impact_score = 0.8, original_time = None,
     suggested_time = Some 1064170740, duration = Some 120\<rparr>"

definition demo_move_lunch :: ScheduleOptimization where
  "demo_move_lunch = \<lparr>optimization_type = MOVE_MEETING_FROM_PEAK_FOCUS,
     opt_title = ''Reschedule Client Lunch Meeting'',
     opt_description = ''Move meeting out of peak productivity hours'',
     opt_confidence = 0.8, impact_score = 0.6,
     original_time = Some 1064170800, suggested_time = Some 1064170620,
     duration = None\<rparr>"

text \<open>The outcome of the sample run for user \<^verbatim>\<open>42\<close>.\<close>

definition demo_outcome :: run_outcome where
  "demo_outcome = projr (optimize_schedule demo_env ''42'' demo_range)"

text \<open>
  A sample run of the predictive service, with the candidates the generators derive from
  the sample deadlines and calendar of the source: the pattern generator fails, and the
  task table refuses its first insert.
\<close>

definition demo_urgent_prep :: PredictedTask where
  "demo_urgent_prep =
     \<lparr>title = ''URGENT PREP: Project proposal'',
      description = ''Last-minute preparation for imminent deadline'',
      estimated_duration = 60, confidence = 0.95, source = DEADLINE_BASED,
      priority = ''critical'', due_date = Some (1064160000 + 9 * 1440 + 6 * 60 + 15),
      category = ''work'', reasoning = ''Deadline is within 24 hours'', dependencies = []\<rparr>"

definition demo_plan :: PredictedTask where
  "demo_plan =
     \<lparr>title = ''Plan approach for: Tax filing'',
      description = ''Strategic planning for upcoming deadline'',
      estimated_duration = 30, confidence = 0.7, source = DEADLINE_BASED,
      priority = ''medium'', due_date = None,
      category = ''work'', reasoning = ''Deadline in 4 days - good time to plan'', dependencies = []\<rparr>"

definition demo_follow_up :: PredictedTask where
  "demo_follow_up =
     \<lparr>title = ''Follow up on Client presentation'',
      description = ''Send summary and action items to participants'',
      estimated_duration = 20, confidence = 0.9, source = CALENDAR_BASED,
      priority = ''medium'', due_date = Some (1064160000 + 8 * 1440 + 13 * 60 + 15),
      category = ''work'', reasoning = ''Client meetings typically require follow-up'', dependencies = []\<rparr>"

definition demo_pred_env :: pred_env where
  "demo_pred_env =
     \<lparr>context_failure = None,
      pattern_body = Inl (KeyError ''title''),
      calendar_body = Inr [demo_follow_up],
      goal_body = Inr [],
      deadline_body = Inr [demo_plan, demo_urgent_prep],
      score_clock = (\<lambda>i. 1064160000 + 7 * 1440 + 8 * 60 + 15),
      pred_stored_tasks = [],
      pred_insert_fails = (\<lambda>table row. if table = [] then Some (DatabaseError ''database is locked'') else None),
      pred_redis = None\<rparr>"

text \<open>The same run on a task table that accepts every row.\<close>

definition healthy_pred_env :: pred_env where
  "healthy_pred_env = demo_pred_env\<lparr>pred_insert_fails := (\<lambda>table row. None)\<rparr>"

definition healthy_outcome :: prediction_outcome where
  "healthy_outcome = projr (generate_predictive_tasks healthy_pred_env ''42'')"

text \<open>What \<^const>\<open>execute_optimization\<close> returns for a focus block whose creation raised \<open>e\<close>.\<close>

definition failed_focus_result :: "ScheduleOptimization \<Rightarrow> exn \<Rightarrow> optimization_result" where
  "failed_focus_result opp e =
     (empty_result ''focus_block_created'' ''failed'')
       \<lparr>error := Some (exn_str e),
        productivity_gain_estimate := Some (impact_score opp),
        result_confidence := Some (opt_confidence opp)\<rparr>"



text \<open>Two predictions whose titles differ in case and surrounding blanks only.\<close>

definition demo_reschedule_a :: PredictedTask where
  "demo_reschedule_a = demo_plan\<lparr>title := ''Reschedule X''\<rparr>"

definition demo_reschedule_b :: PredictedTask where
  "demo_reschedule_b = demo_follow_up\<lparr>title := ''  reschedule x  ''\<rparr>"

text \<open>A task created from a prediction of 20 minutes, on an empty table that accepts every row.\<close>

definition demo_created :: "created_task \<times> Task list" where
  "demo_created = projr (auto_create_task (\<lambda>table row. None) ''42'' [] (asdict demo_follow_up))"



section \<open>Properties of the productivity pattern\<close>

lemma distinct_map_sort_key:
  "distinct (map f (sort_key k ys)) = distinct (map f ys)"
  by (simp add: distinct_map)

lemma set_map_sort_key:
  "set (map f (sort_key k ys)) = set (map f ys)"
  by simp

lemma map_fst_hourly_scores:
  "distinct (map fst (hourly_scores_of hp)) = distinct (map fst hp)"
  "set (map fst (hourly_scores_of hp)) = set (map fst hp)"
  "length (hourly_scores_of hp) = length hp"
proof -
  let ?ys = "map (\<lambda>(hour, data). (hour, avg_focus_score data)) hp"
  have m: "map fst ?ys = map fst hp" by (simp add: case_prod_unfold)
  have "distinct (map fst (sort_key (\<lambda>x. - snd x) ?ys)) = distinct (map fst ?ys)"
    by (rule distinct_map_sort_key)
  then show "distinct (map fst (hourly_scores_of hp)) = distinct (map fst hp)"
    by (simp only: hourly_scores_of_def sort_desc_by_def m)
  have "set (map fst (sort_key (\<lambda>x. - snd x) ?ys)) = set (map fst ?ys)"
    by (rule set_map_sort_key)
  then show "set (map fst (hourly_scores_of hp)) = set (map fst hp)"
    by (simp only: hourly_scores_of_def sort_desc_by_def m)
  show "length (hourly_scores_of hp) = length hp"
    by (simp add: hourly_scores_of_def sort_desc_by_def)
qed

lemma hourly_productivity_hours: "map fst (hourly_productivity_of hdata) = [0..<24]"
  by (simp add: hourly_productivity_of_def comp_def)

lemma peak_low_of_disjoint:
  assumes "distinct (map fst hp)"
  shows "set (peak_hours_of hp) \<inter> set (low_energy_hours_of hp) = {}"
proof -
  let ?hs = "map fst (hourly_scores_of hp)"
  let ?n = "length hp div 4"
  have d: "distinct ?hs" using assms by (simp add: map_fst_hourly_scores)
  have p: "peak_hours_of hp = take ?n ?hs"
    by (simp add: peak_hours_of_def map_fst_hourly_scores take_map)
  show ?thesis
  proof (cases "?n = 0")
    case True
    then show ?thesis by (simp add: p)
  next
    case False
    then have l: "low_energy_hours_of hp = drop (length ?hs - ?n) ?hs"
      by (simp add: low_energy_hours_of_def slice_last_def map_fst_hourly_scores drop_map)
    have "?n \<le> length ?hs - ?n" by (simp add: map_fst_hourly_scores) 
    from set_take_disj_set_drop_if_distinct[OF d this] show ?thesis
      by (simp only: p l)
  qed
qed

text \<open>
  Claim C9. In every pattern that \<^const>\<open>get_productivity_patterns\<close> returns, whether
  computed from the sessions or the default of the \<^verbatim>\<open>except\<close> branch, no hour is both a
  peak hour and a low-energy hour; in a computed pattern each of the two lists holds six
  different hours of the day.
\<close>

theorem C9_peak_low_disjoint:
  "set (peak_hours (get_productivity_patterns q)) \<inter>
     set (low_energy_hours (get_productivity_patterns q)) = {}
   \<and> length (peak_hours (get_productivity_patterns (Inr sessions))) = 6
   \<and> length (low_energy_hours (get_productivity_patterns (Inr sessions))) = 6
   \<and> distinct (peak_hours (get_productivity_patterns (Inr sessions)))
   \<and> distinct (low_energy_hours (get_productivity_patterns (Inr sessions)))
   \<and> set (peak_hours (get_productivity_patterns (Inr sessions))) \<subseteq> {0..<24}
   \<and> set (low_energy_hours (get_productivity_patterns (Inr sessions))) \<subseteq> {0..<24}"
proof -
  let ?hp = "hourly_productivity_of (hourly_data_of sessions)"
  let ?hs = "map fst (hourly_scores_of ?hp)"
  have len: "length ?hp = 24" by (simp add: hourly_productivity_of_def)
  have d: "distinct ?hs" by (simp add: map_fst_hourly_scores hourly_productivity_hours)
  have s: "set ?hs = {0..<24}" 
    by (simp only: map_fst_hourly_scores hourly_productivity_hours set_upt)
  have p: "peak_hours_of ?hp = take 6 ?hs"
    by (simp add: peak_hours_of_def map_fst_hourly_scores take_map len)
  have l: "low_energy_hours_of ?hp = drop 18 ?hs"
    by (simp add: low_energy_hours_of_def slice_last_def map_fst_hourly_scores drop_map len)
  have lh: "length ?hs = 24" by (simp add: map_fst_hourly_scores len)
  have 1: "set (peak_hours (get_productivity_patterns q)) \<inter>
     set (low_energy_hours (get_productivity_patterns q)) = {}"
  proof (cases q)
    case (Inl e)
    then show ?thesis by (simp add: get_productivity_patterns_def default_pattern_def)
  next
    case (Inr ss)
    then show ?thesis
      by (simp add: get_productivity_patterns_def analyse_sessions_def Let_def
          peak_low_of_disjoint hourly_productivity_hours)
  qed
  have 2: "length (take 6 ?hs) = 6" "length (drop 18 ?hs) = 6" using lh by simp_all
  have 3: "distinct (take 6 ?hs)" "distinct (drop 18 ?hs)" using d by simp_all
  have 4: "set (take 6 ?hs) \<subseteq> {0..<24}" "set (drop 18 ?hs) \<subseteq> {0..<24}"
    using s set_take_subset[of 6 ?hs] set_drop_subset[of 18 ?hs] by blast+
  show ?thesis
    using 1 2 3 4
    by (simp only: get_productivity_patterns_def analyse_sessions_def Let_def sum.case
         ProductivityPattern.simps p l)
qed

lemma map_of_hourly_productivity:
  "h < 24 \<Longrightarrow> map_of (hourly_productivity_of hdata) h = Some (hour_stats_of hdata h)"
proof -
  assume "h < 24"
  then have "h \<in> set [0..<24]" by simp
  then show ?thesis
    unfolding hourly_productivity_of_def
    by (induction "[0..<24]" rule: list.induct) (auto simp: map_of_map_restrict)
qed

lemma upt_24: "[0..<24] = [0,1,2,3,4,5,6,7,8,9,10,11,12,13,14,15,16,17,18,19,20,21,22,23::nat]"
  by (simp add: upt_rec)

lemma upt_22: "[0..<22] = [0,1,2,3,4,5,6,7,8,9,10,11,12,13,14,15,16,17,18,19,20,21::nat]"
  by (simp add: upt_rec)

text \<open>
  Claim C4, as amended. When the hourly averages are 0.5 except 0.9 at hour 10 and 0.95
  at hour 11, the only optimal focus block is the window from 10 to 12 with score 0.925
  and quality high, and the peak hours are 11 and 10 followed by the hours 0 to 3: the
  top quartile always has six hours, so four hours at 0.5 belong to it.
\<close>

theorem C4_scenario_A:
  assumes "\<forall>h<24. avg_focus_score (hour_stats_of (hourly_data_of sessions) h) = scenario_A_score h"
  shows "optimal_focus_blocks (get_productivity_patterns (Inr sessions)) =
           [\<lparr>start_hour = 10, end_hour = 12, productivity_score = 0.925, focus_quality = Some ''high''\<rparr>]
       \<and> peak_hours (get_productivity_patterns (Inr sessions)) = [11, 10, 0, 1, 2, 3]"
proof -
  let ?hd = "hourly_data_of sessions"
  let ?hp = "hourly_productivity_of ?hd"
  have sc: "avg_focus_score (hour_stats_of ?hd h) = scenario_A_score h" if "h < 24" for h
    using assms that by simp
  have scores: "map (\<lambda>(hour, data). (hour, avg_focus_score data)) ?hp
                  = map (\<lambda>h. (h, scenario_A_score h)) [0..<24]"
    by (simp add: hourly_productivity_of_def sc)
  have peak: "peak_hours_of ?hp = [11, 10, 0, 1, 2, 3]"
    unfolding peak_hours_of_def hourly_scores_of_def scores sort_desc_by_def upt_24
    by (simp add: scenario_A_score_def)
  have bs: "block_score_of ?hp s = scenario_A_score s + scenario_A_score (Suc s)" if "s < 22" for s
    using that by (simp add: block_score_of_def upt_rec map_of_hourly_productivity sc)
  have "optimal_blocks_of ?hp =
          concat (map (\<lambda>s. if (scenario_A_score s + scenario_A_score (Suc s)) / 2 > 0.75
                 then [\<lparr>start_hour = s, end_hour = s + 2,
                         productivity_score = (scenario_A_score s + scenario_A_score (Suc s)) / 2,
                         focus_quality = Some (if (scenario_A_score s + scenario_A_score (Suc s)) / 2 > 0.85
                                               then ''high'' else ''medium'')\<rparr>]
                 else []) [0..<22])"
    unfolding optimal_blocks_of_def optimal_block_at_def Let_def
    by (rule arg_cong[where f = concat], rule map_cong) (simp_all add: bs)
  then have blocks: "optimal_blocks_of ?hp =
      [\<lparr>start_hour = 10, end_hour = 12, productivity_score = 0.925, focus_quality = Some ''high''\<rparr>]"
    unfolding upt_22 by (simp add: scenario_A_score_def)
  show ?thesis
    by (simp add: get_productivity_patterns_def analyse_sessions_def Let_def peak blocks)
qed

lemma scenario_A_hourly:
  "\<forall>h<24. avg_focus_score (hour_stats_of (hourly_data_of scenario_A_sessions) h) = scenario_A_score h"
proof (intro allI impI)
  fix h :: nat
  have hd: "hourly_data_of scenario_A_sessions =
     [10 \<mapsto> [entry_of (scenario_A_sessions ! 0)], 11 \<mapsto> [entry_of (scenario_A_sessions ! 1)]]"
    by (simp add: hourly_data_of_def scenario_A_sessions_def add_hourly_def hour_of_def Let_def)
  show "avg_focus_score (hour_stats_of (hourly_data_of scenario_A_sessions) h) = scenario_A_score h"
    unfolding hd
    by (simp add: hour_stats_of_def scenario_A_score_def scenario_A_sessions_def entry_of_def
        focus_or_default_def mean_def)
qed

theorem C4_scenario_A_witness:
  "optimal_focus_blocks (get_productivity_patterns (Inr scenario_A_sessions)) =
           [\<lparr>start_hour = 10, end_hour = 12, productivity_score = 0.925, focus_quality = Some ''high''\<rparr>]
       \<and> peak_hours (get_productivity_patterns (Inr scenario_A_sessions)) = [11, 10, 0, 1, 2, 3]"
  using C4_scenario_A[OF scenario_A_hourly] .

text \<open>
  The claim as stated fails: in scenario A hour 0 has score 0.5 and is a peak hour.
\<close>

theorem C4_counterexample:
  "map (avg_focus_score \<circ> snd) (hourly_productivity (get_productivity_patterns (Inr scenario_A_sessions)))
      = [0.5, 0.5, 0.5, 0.5, 0.5, 0.5, 0.5, 0.5, 0.5, 0.5, 0.9, 0.95,
         0.5, 0.5, 0.5, 0.5, 0.5, 0.5, 0.5, 0.5, 0.5, 0.5, 0.5, 0.5]
   \<and> 0 \<in> set (peak_hours (get_productivity_patterns (Inr scenario_A_sessions)))"
  by code_simp

text \<open>
  The claim as stated fails: with no session at all the tolerance keeps its initial value
  0.5, not 0.6.
\<close>

theorem C5_counterexample:
  "context_switch_tolerance (get_productivity_patterns (Inr [])) \<noteq> 0.6"
  by (simp add: get_productivity_patterns_def analyse_sessions_def Let_def tolerance_of_def)

text \<open>
  Claim C5, as amended. When the queries succeed and return no session, the tolerance is
  0.5; the value 0.6 belongs to the default pattern returned when the data source fails;
  with at least one session it is the larger of 0.1 and one minus the share of
  interrupted sessions.
\<close>

theorem C5_tolerance:
  "context_switch_tolerance (get_productivity_patterns (Inr [])) = 0.5
   \<and> context_switch_tolerance (get_productivity_patterns (Inl e)) = 0.6
   \<and> (sessions \<noteq> [] \<longrightarrow>
        context_switch_tolerance (get_productivity_patterns (Inr sessions)) =
          max 0.1 (1 - real (length (filter interrupted sessions)) / real (length sessions)))"
  by (simp add: get_productivity_patterns_def analyse_sessions_def Let_def tolerance_of_def
      default_pattern_def session_interruption_rate_def)

theorem C5_tolerance_witness:
  "demo_sessions \<noteq> [] \<and>
   context_switch_tolerance (get_productivity_patterns (Inr demo_sessions)) = 2 / 3"
  using C5_tolerance[of "DatabaseError []" demo_sessions]
  by (simp add: demo_sessions_def)

section \<open>Properties of the generated candidates\<close>

lemma bind_exn_Inr_iff:
  "bind_exn m f = Inr y \<longleftrightarrow> (\<exists>x. m = Inr x \<and> f x = Inr y)"
  by (cases m) (simp_all add: bind_exn_def)

lemma reschedule_candidates_shape:
  "reschedule_candidates patterns block = Inr os \<Longrightarrow> opp \<in> set os \<Longrightarrow> generated_shape opp"
  by (auto simp: reschedule_candidates_def Let_def bind_exn_Inr_iff generated_shape_def
      split: if_splits)

lemma meeting_candidates_shape:
  "meeting_candidates patterns block = Inr os \<Longrightarrow> opp \<in> set os \<Longrightarrow> generated_shape opp"
  by (auto simp: meeting_candidates_def Let_def bind_exn_Inr_iff generated_shape_def
      split: if_splits)

lemma block_candidates_shape:
  "block_candidates patterns schedule = Inr os \<Longrightarrow> opp \<in> set os \<Longrightarrow> generated_shape opp"
proof (induction schedule arbitrary: os)
  case Nil
  then show ?case by simp
next
  case (Cons block rest)
  show ?case
  proof (cases "moveable block")
    case False
    with Cons show ?thesis by simp
  next
    case True
    with Cons.prems(1) obtain a b c where
      a: "reschedule_candidates patterns block = Inr a" and
      b: "meeting_candidates patterns block = Inr b" and
      c: "block_candidates patterns rest = Inr c" and os: "os = a @ b @ c"
      by (auto simp: bind_exn_Inr_iff)
    from Cons.prems(2) os have "opp \<in> set a \<or> opp \<in> set b \<or> opp \<in> set c" by auto
    then show ?thesis
      using reschedule_candidates_shape[OF a] meeting_candidates_shape[OF b] Cons.IH[OF c]
      by blast
  qed
qed

lemma focus_candidate_shape:
  "focus_candidate now schedule fb = Inr os \<Longrightarrow> opp \<in> set os \<Longrightarrow> generated_shape opp"
  by (auto simp: focus_candidate_def Let_def bind_exn_Inr_iff generated_shape_def
      split: if_splits)

lemma focus_candidates_shape:
  "focus_candidates now schedule fbs = Inr os \<Longrightarrow> opp \<in> set os \<Longrightarrow> generated_shape opp"
proof (induction fbs arbitrary: os)
  case Nil
  then show ?case by simp
next
  case (Cons fb fbs)
  from Cons.prems(1) obtain a b where
    a: "focus_candidate now schedule fb = Inr a" and
    b: "focus_candidates now schedule fbs = Inr b" and os: "os = a @ b"
    by (auto simp: bind_exn_Inr_iff)
  from Cons.prems(2) os have "opp \<in> set a \<or> opp \<in> set b" by auto
  then show ?case using focus_candidate_shape[OF a] Cons.IH[OF b] by blast
qed

lemma consolidation_shape:
  "opp \<in> set (identify_meeting_consolidation schedule) \<Longrightarrow> generated_shape opp"
  by (auto simp: identify_meeting_consolidation_def consolidation_candidate_def Let_def
      generated_shape_def split: if_splits)

lemma identified_shape:
  assumes "opp \<in> set (identify_optimization_opportunities now schedule patterns)"
  shows "generated_shape opp"
proof (cases "block_candidates patterns schedule")
  case (Inl e)
  with assms show ?thesis by (simp add: identify_optimization_opportunities_def bind_exn_def)
next
  case a: (Inr a)
  show ?thesis
  proof (cases "identify_focus_block_opportunities now schedule patterns")
    case (Inl e)
    with assms a show ?thesis by (simp add: identify_optimization_opportunities_def bind_exn_def)
  next
    case b: (Inr b)
    from assms a b have "opp \<in> set a \<or> opp \<in> set b \<or> opp \<in> set (identify_meeting_consolidation schedule)"
      by (auto simp: identify_optimization_opportunities_def bind_exn_def sort_desc_by_def)
    then show ?thesis
      using block_candidates_shape[OF a] consolidation_shape
        focus_candidates_shape[OF b[unfolded identify_focus_block_opportunities_def]]
      by blast
  qed
qed

lemma identified_sorted:
  "sorted (map (\<lambda>opp. - impact_score opp) (identify_optimization_opportunities now schedule patterns))"
  by (simp add: identify_optimization_opportunities_def bind_exn_def sort_desc_by_def
      split: sum.splits)

lemma selected_none_at_limit: "5 \<le> n \<Longrightarrow> selected_for_execution os n = []"
  by (induction os) simp_all

lemma selected_none_failing:
  "\<forall>opp \<in> set os. \<not> passes_gate opp \<Longrightarrow> selected_for_execution os n = []"
  by (induction os arbitrary: n) (auto simp: passes_gate_def)

lemma length_selected_le: "n + length (selected_for_execution os n) \<le> max n 5"
proof (induction os arbitrary: n)
  case Nil
  then show ?case by simp
next
  case (Cons opp rest)
  show ?case
    using Cons.IH[of "n + 1"] Cons.IH[of n] by (auto simp: max_def)
qed

lemma generated_gate: "generated_shape opp \<Longrightarrow> passes_gate opp \<longleftrightarrow> 0.7 \<le> impact_score opp"
  by (auto simp: generated_shape_def passes_gate_def)

lemma selected_is_prefix:
  assumes "sorted (map (\<lambda>opp. - impact_score opp) os)"
    and "\<forall>opp \<in> set os. generated_shape opp"
  shows "selected_for_execution os n = take (length (selected_for_execution os n)) os"
  using assms
proof (induction os arbitrary: n)
  case Nil
  then show ?case by simp
next
  case (Cons opp rest)
  have srt: "sorted (map (\<lambda>opp. - impact_score opp) rest)"
    and shp: "\<forall>x \<in> set rest. generated_shape x"
    using Cons.prems by simp_all
  show ?case
  proof (cases "passes_gate opp \<and> n < 5")
    case True
    then show ?thesis
      using Cons.IH[OF srt shp, of "n + 1"] by (simp add: passes_gate_def)
  next
    case False
    have "selected_for_execution rest n = []"
    proof (cases "n < 5")
      case False
      then show ?thesis by (simp add: selected_none_at_limit)
    next
      case True
      with False have ng: "\<not> passes_gate opp" by simp
      have "generated_shape opp" using Cons.prems(2) by simp
      with ng have low: "impact_score opp < 0.7" by (simp add: generated_gate)
      have "\<forall>x \<in> set rest. \<not> passes_gate x"
      proof
        fix x assume x: "x \<in> set rest"
        with Cons.prems(1) have "impact_score x \<le> impact_score opp" by auto
        with low have "\<not> 0.7 \<le> impact_score x" by simp
        with shp x show "\<not> passes_gate x" by (simp add: generated_gate)
      qed
      then show ?thesis by (rule selected_none_failing)
    qed
    with False show ?thesis by (auto simp: passes_gate_def)
  qed
qed

lemma execution_loop_counts:
  "execution_loop fails user_id os rs n table = (rs', n', table') \<Longrightarrow>
     n' = n + length (selected_for_execution os n)
     \<and> length rs' = length rs + length (selected_for_execution os n)
     \<and> take (length rs) rs' = rs"
proof (induction os arbitrary: rs n table)
  case Nil
  then show ?case by simp
next
  case (Cons opp rest)
  show ?case
  proof (cases "opt_confidence opp > 0.8 \<and> impact_score opp > 0.6 \<and> n < 5")
    case True
    obtain r t where ex: "execute_optimization fails user_id table opp = (r, t)"
      by (cases "execute_optimization fails user_id table opp")
    with True Cons.prems
    have "execution_loop fails user_id rest (rs @ [r]) (n + 1) t = (rs', n', table')"
      by simp
    from Cons.IH[OF this] True show ?thesis
      by (auto simp: take_Suc_conv_app_nth dest: arg_cong[where f = "take (length rs)"])
  next
    case False
    with Cons.prems
    have "execution_loop fails user_id rest rs n table = (rs', n', table')"
      by auto
    from Cons.IH[OF this] False show ?thesis by auto
  qed
qed

lemma execute_gain:
  "productivity_gain_estimate (fst (execute_optimization fails user_id table opp)) = Some (impact_score opp)
   \<and> result_confidence (fst (execute_optimization fails user_id table opp)) = Some (opt_confidence opp)"
  by (simp add: execute_optimization_def dispatch_optimization_def split: prod.splits)

lemma execute_has_minutes:
  assumes "generated_shape opp"
  shows "has_minutes (fst (execute_optimization fails user_id table opp))"
proof -
  have other: "has_minutes (reschedule_meeting opp)" "has_minutes (reschedule_task opp)"
    "has_minutes (consolidate_meetings opp)"
    by (simp_all add: has_minutes_def reschedule_meeting_def reschedule_task_def
        consolidate_meetings_def empty_result_def)
  have focus: "has_minutes (fst (create_focus_block fails user_id table opp))"
    if "optimization_type opp = BLOCK_FOCUS_TIME"
    using that assms
    by (auto simp: has_minutes_def create_focus_block_def empty_result_def generated_shape_def
        split: sum.splits prod.splits)
  show ?thesis
    using other focus
    by (auto simp: execute_optimization_def dispatch_optimization_def has_minutes_def
        empty_result_def split: prod.splits)
qed

lemma execution_loop_has_minutes:
  "execution_loop fails user_id os rs n table = (rs', n', table') \<Longrightarrow>
   \<forall>opp \<in> set os. generated_shape opp \<Longrightarrow> \<forall>r \<in> set rs. has_minutes r \<Longrightarrow>
   \<forall>r \<in> set rs'. has_minutes r"
proof (induction os arbitrary: rs n table)
  case Nil
  then show ?case by simp
next
  case (Cons opp rest)
  show ?case
  proof (cases "opt_confidence opp > 0.8 \<and> impact_score opp > 0.6 \<and> n < 5")
    case True
    obtain r t where ex: "execute_optimization fails user_id table opp = (r, t)"
      by (cases "execute_optimization fails user_id table opp")
    have "has_minutes r"
      using execute_has_minutes[of opp fails user_id table] Cons.prems(2) ex by simp
    with Cons.prems(3) have all: "\<forall>x \<in> set (rs @ [r]). has_minutes x" by simp
    from True Cons.prems(1) ex
    have "execution_loop fails user_id rest (rs @ [r]) (n + 1) t = (rs', n', table')" by simp
    from Cons.IH[OF this _ all] Cons.prems(2) show ?thesis by simp
  next
    case False
    with Cons.prems(1)
    have "execution_loop fails user_id rest rs n table = (rs', n', table')" by auto
    from Cons.IH[OF this _ Cons.prems(3)] Cons.prems(2) show ?thesis by simp
  qed
qed

lemma focus_minutes_returns:
  "\<forall>r \<in> set rs. has_minutes r \<Longrightarrow> \<exists>m. focus_minutes rs = Inr m"
  by (induction rs) (auto simp: has_minutes_def bind_exn_def split: option.splits)

lemma calculate_impact_returns:
  "\<forall>r \<in> set rs. has_minutes r \<Longrightarrow> \<exists>s. calculate_optimization_impact rs = Inr s"
  using focus_minutes_returns[of rs]
  by (auto simp: calculate_optimization_impact_def bind_exn_def)

lemma ranked_shape:
  "opp \<in> set (ranked_opportunities env date_range) \<Longrightarrow> generated_shape opp"
  unfolding ranked_opportunities_def Let_def by (rule identified_shape)

lemma ranked_sorted:
  "sorted (map (\<lambda>opp. - impact_score opp) (ranked_opportunities env date_range))"
  unfolding ranked_opportunities_def Let_def by (rule identified_sorted)

lemma optimize_schedule_returns:
  "\<exists>out. optimize_schedule env user_id date_range = Inr out"
proof -
  let ?os = "ranked_opportunities env date_range"
  obtain rs n t where loop:
    "execution_loop (insert_fails env) user_id ?os [] 0 (stored_tasks env) = (rs, n, t)"
    by (cases "execution_loop (insert_fails env) user_id ?os [] 0 (stored_tasks env)") auto
  have "\<forall>r \<in> set rs. has_minutes r"
    using execution_loop_has_minutes[OF loop] ranked_shape by simp
  then obtain s where "calculate_optimization_impact rs = Inr s"
    using calculate_impact_returns by blast
  with loop show ?thesis
    by (simp add: optimize_schedule_def Let_def bind_exn_def)
qed

lemma optimize_schedule_Inr:
  assumes "optimize_schedule env user_id date_range = Inr out"
  obtains rs n t s where
    "execution_loop (insert_fails env) user_id (ranked_opportunities env date_range) [] 0
        (stored_tasks env) = (rs, n, t)"
    "calculate_optimization_impact rs = Inr s"
    "executed_optimizations (returned out) = rs"
    "suggested_optimizations (returned out) = drop n (ranked_opportunities env date_range)"
    "final_tasks out = t"
    "cache_entry out = cache_optimization_results (redis env)
        \<lparr>cached_executed = rs, cached_suggested = drop n (ranked_opportunities env date_range),
         cached_impact_summary = s\<rparr>"
proof -
  let ?os = "ranked_opportunities env date_range"
  obtain rs n t where loop:
    "execution_loop (insert_fails env) user_id ?os [] 0 (stored_tasks env) = (rs, n, t)"
    by (cases "execution_loop (insert_fails env) user_id ?os [] 0 (stored_tasks env)") auto
  from assms loop obtain s where s: "calculate_optimization_impact rs = Inr s"
    by (cases "calculate_optimization_impact rs")
       (simp_all add: optimize_schedule_def Let_def bind_exn_def)
  from assms loop s have "out = \<lparr>returned =
                      \<lparr>executed_optimizations = rs,
                       suggested_optimizations = drop n ?os,
                       run_impact_summary = s,
                       run_productivity_gain_estimate = total_productivity_gain s\<rparr>,
                    final_tasks = t,
                    cache_entry =
                      cache_optimization_results (redis env)
                        \<lparr>cached_executed = rs,
                         cached_suggested = drop n ?os,
                         cached_impact_summary = s\<rparr>\<rparr>"
    by (simp add: optimize_schedule_def Let_def bind_exn_def)
  then show ?thesis using that[OF loop s] by simp
qed

lemma optimize_schedule_cache:
  assumes "optimize_schedule env user_id date_range = Inr out"
  shows "cache_entry out =
           cache_optimization_results (redis env)
             \<lparr>cached_executed = executed_optimizations (returned out),
              cached_suggested = suggested_optimizations (returned out),
              cached_impact_summary = run_impact_summary (returned out)\<rparr>"
proof -
  let ?os = "ranked_opportunities env date_range"
  obtain rs n t where loop:
    "execution_loop (insert_fails env) user_id ?os [] 0 (stored_tasks env) = (rs, n, t)"
    by (cases "execution_loop (insert_fails env) user_id ?os [] 0 (stored_tasks env)") auto
  from assms loop obtain s where s: "calculate_optimization_impact rs = Inr s"
    by (cases "calculate_optimization_impact rs")
       (simp_all add: optimize_schedule_def Let_def bind_exn_def)
  from assms loop s have "out = \<lparr>returned =
                      \<lparr>executed_optimizations = rs,
                       suggested_optimizations = drop n ?os,
                       run_impact_summary = s,
                       run_productivity_gain_estimate = total_productivity_gain s\<rparr>,
                    final_tasks = t,
                    cache_entry =
                      cache_optimization_results (redis env)
                        \<lparr>cached_executed = rs,
                         cached_suggested = drop n ?os,
                         cached_impact_summary = s\<rparr>\<rparr>"
    by (simp add: optimize_schedule_def Let_def bind_exn_def)
  then show ?thesis by simp
qed

lemma execution_loop_gains:
  "execution_loop fails user_id os rs n table = (rs', n', table') \<Longrightarrow>
     map productivity_gain_estimate rs' =
       map productivity_gain_estimate rs
         @ map (\<lambda>opp. Some (impact_score opp)) (selected_for_execution os n)"
proof (induction os arbitrary: rs n table)
  case Nil
  then show ?case by simp
next
  case (Cons opp rest)
  show ?case
  proof (cases "opt_confidence opp > 0.8 \<and> impact_score opp > 0.6 \<and> n < 5")
    case True
    obtain r t where ex: "execute_optimization fails user_id table opp = (r, t)"
      by (cases "execute_optimization fails user_id table opp")
    have g: "productivity_gain_estimate r = Some (impact_score opp)"
      using execute_gain[of fails user_id table opp] ex by simp
    from True Cons.prems ex
    have "execution_loop fails user_id rest (rs @ [r]) (n + 1) t = (rs', n', table')" by simp
    from Cons.IH[OF this] True g show ?thesis by simp
  next
    case False
    with Cons.prems
    have "execution_loop fails user_id rest rs n table = (rs', n', table')" by auto
    from Cons.IH[OF this] False show ?thesis by auto
  qed
qed

text \<open>
  Claim C3. In every run of \<^const>\<open>optimize_schedule\<close> the ranked candidates are the
  candidates handed to the executor followed by the suggested list, position by
  position: every candidate that was not executed is suggested, and no executed one is.
  When a cache is configured and its write succeeds, the run leaves a cache entry that
  holds the returned executed list, the returned suggested list and the returned impact
  summary; otherwise it leaves no entry. The executed candidates always occupy
  the first ranks, because the generators give a candidate that passes the gate an impact
  of at least 0.7 and every other candidate a smaller one.
\<close>

theorem C3_suggested_is_remainder:
  assumes "optimize_schedule env user_id date_range = Inr out"
  shows "ranked_opportunities env date_range =
           selected_for_execution (ranked_opportunities env date_range) 0
             @ suggested_optimizations (returned out)
       \<and> map productivity_gain_estimate (executed_optimizations (returned out)) =
           map (\<lambda>opp. Some (impact_score opp))
               (selected_for_execution (ranked_opportunities env date_range) 0)
       \<and> cache_entry out =
           (if redis env = Some True
            then Some \<lparr>cached_executed = executed_optimizations (returned out),
                       cached_suggested = suggested_optimizations (returned out),
                       cached_impact_summary = run_impact_summary (returned out)\<rparr>
            else None)"
proof -
  let ?os = "ranked_opportunities env date_range"
  let ?sel = "selected_for_execution ?os 0"
  from assms obtain rs n t s where
    loop: "execution_loop (insert_fails env) user_id ?os [] 0 (stored_tasks env) = (rs, n, t)"
    and ex: "executed_optimizations (returned out) = rs"
    and sg: "suggested_optimizations (returned out) = drop n ?os"
    and ca: "cache_entry out = cache_optimization_results (redis env)
        \<lparr>cached_executed = rs, cached_suggested = drop n ?os, cached_impact_summary = s\<rparr>"
    by (rule optimize_schedule_Inr)
  have n: "n = length ?sel" using execution_loop_counts[OF loop] by simp
  have "?sel = take (length ?sel) ?os"
    using selected_is_prefix[OF ranked_sorted, of env date_range 0] ranked_shape by blast
  then have "?sel @ drop n ?os = take n ?os @ drop n ?os" using n by simp
  then have 1: "?os = ?sel @ suggested_optimizations (returned out)" using sg by simp
  have 2: "map productivity_gain_estimate (executed_optimizations (returned out)) =
           map (\<lambda>opp. Some (impact_score opp)) ?sel"
    using execution_loop_gains[OF loop] ex by simp
  have 3: "cache_entry out =
           (if redis env = Some True
            then Some \<lparr>cached_executed = executed_optimizations (returned out),
                       cached_suggested = suggested_optimizations (returned out),
                       cached_impact_summary = run_impact_summary (returned out)\<rparr>
            else None)"
    unfolding optimize_schedule_cache[OF assms]
    by (cases "redis env") (auto simp: cache_optimization_results_def)
  from 1 2 3 show ?thesis by blast
qed

lemma demo_ranked:
  "ranked_opportunities demo_env demo_range = [demo_focus_10, demo_focus_11, demo_move_lunch]"
  by code_simp

text \<open>
  The prefix property belongs to the generators, not to the loop: on a list that ranks a
  candidate failing the gate above one passing it, the loop executes the second, and the
  slice after one element is that executed candidate again.
\<close>

lemma slice_depends_on_generators:
  "selected_for_execution [demo_move_lunch\<lparr>impact_score := 0.9\<rparr>, demo_focus_10] 0 = [demo_focus_10]
   \<and> drop 1 [demo_move_lunch\<lparr>impact_score := 0.9\<rparr>, demo_focus_10] = [demo_focus_10]"
  by (simp add: demo_move_lunch_def demo_focus_10_def)

section \<open>Properties of the predictive-task service\<close>

lemma unique_loop_nths:
  "unique_loop xs seen acc =
     acc @ nths xs {i. i < length xs \<and> title_key (pred_title (xs ! i)) \<notin> seen
                       \<and> (\<forall>j<i. title_key (pred_title (xs ! j)) \<noteq> title_key (pred_title (xs ! i)))}"
proof (induction xs arbitrary: seen acc)
  case Nil
  then show ?case by simp
next
  case (Cons x xs)
  let ?k = "\<lambda>p. title_key (pred_title p)"
  let ?A = "\<lambda>ys s. {i. i < length ys \<and> ?k (ys ! i) \<notin> s \<and> (\<forall>j<i. ?k (ys ! j) \<noteq> ?k (ys ! i))}"
  show ?case
  proof (cases "?k x \<in> seen")
    case True
    have "{j. Suc j \<in> ?A (x # xs) seen} = ?A xs seen"
      using True by (auto simp: All_less_Suc2)
    with True show ?thesis by (simp add: Cons.IH nths_Cons)
  next
    case False
    have "{j. Suc j \<in> ?A (x # xs) seen} = ?A xs (insert (?k x) seen)"
      by (auto simp: All_less_Suc2)
    with False show ?thesis by (simp add: Cons.IH nths_Cons)
  qed
qed

text \<open>
  Claim C8. \<^const>\<open>combine_predictions\<close> keeps the merged candidate at position \<open>i\<close>
  exactly when no earlier merged candidate has the same lower-cased, trimmed title, and
  keeps the order; the titles \<^verbatim>\<open>Reschedule X\<close> and \<^verbatim>\<open>  reschedule x  \<close> have the same key,
  so two such candidates collapse into the first.
\<close>

theorem C8_first_occurrence_wins:
  "combine_predictions predictions_list =
     nths (map asdict (concat predictions_list))
       {i. i < length (concat predictions_list)
           \<and> (\<forall>j<i. title_key (title (concat predictions_list ! j))
                       \<noteq> title_key (title (concat predictions_list ! i)))}
   \<and> title_key ''Reschedule X'' = title_key ''  reschedule x  ''
   \<and> (title a = ''Reschedule X'' \<and> title b = ''  reschedule x  ''
        \<longrightarrow> combine_predictions [[a], [b]] = [asdict a])"
proof -
  let ?m = "concat predictions_list"
  have t: "pred_title (map asdict ?m ! i) = title (?m ! i)" if "i < length ?m" for i
    using that by (simp add: asdict_def)
  have "{i. i < length (map asdict ?m) \<and> title_key (pred_title (map asdict ?m ! i)) \<notin> {}
           \<and> (\<forall>j<i. title_key (pred_title (map asdict ?m ! j))
                       \<noteq> title_key (pred_title (map asdict ?m ! i)))}
        = {i. i < length ?m \<and> (\<forall>j<i. title_key (title (?m ! j)) \<noteq> title_key (title (?m ! i)))}"
    using t by auto
  then have 1: "combine_predictions predictions_list =
     nths (map asdict ?m)
       {i. i < length ?m \<and> (\<forall>j<i. title_key (title (?m ! j)) \<noteq> title_key (title (?m ! i)))}"
    unfolding combine_predictions_def Let_def unique_loop_nths by simp
  have 2: "title_key ''Reschedule X'' = title_key ''  reschedule x  ''"
    by code_simp
  have 3: "combine_predictions [[a], [b]] = [asdict a]"
    if "title a = ''Reschedule X''" "title b = ''  reschedule x  ''"
    using that 2 by (simp add: combine_predictions_def asdict_def)
  from 1 2 3 show ?thesis by blast
qed

lemma auto_create_loop_length:
  "auto_create_loop fails user_id tasks acc table = Inr (acc', table') \<Longrightarrow>
     length acc' \<le> length acc + length tasks"
proof (induction tasks arbitrary: acc table)
  case Nil
  then show ?case by simp
next
  case (Cons task rest)
  show ?case
  proof (cases "pred_confidence task > 0.85")
    case True
    with Cons.prems obtain created t where
      "auto_create_loop fails user_id rest (acc @ [created]) t = Inr (acc', table')"
      by (auto simp: bind_exn_Inr_iff)
    from Cons.IH[OF this] show ?thesis by simp
  next
    case False
    with Cons.prems have "auto_create_loop fails user_id rest acc table = Inr (acc', table')"
      by simp
    from Cons.IH[OF this] show ?thesis by simp
  qed
qed



lemma generate_Inr:
  assumes "generate_predictive_tasks env user_id = Inr out"
  shows "context_failure env = None \<and>
         (\<exists>table. auto_create_loop (pred_insert_fails env) user_id (take 3 (ranked_tasks_of env)) []
                     (pred_stored_tasks env) = Inr (auto_created_tasks (pred_returned out), table))"
  using assms
  by (auto simp: generate_predictive_tasks_def Let_def bind_exn_Inr_iff split: option.splits)

text \<open>
  Claim C6. A run of \<^const>\<open>optimize_schedule\<close> executes at most five optimisations and a
  run of \<^const>\<open>generate_predictive_tasks\<close> creates at most three tasks, however many
  candidates pass the gates.
\<close>

theorem C6_execution_bounded:
  "(optimize_schedule env user_id date_range = Inr out \<longrightarrow>
      length (executed_optimizations (returned out)) \<le> 5)
   \<and> (generate_predictive_tasks penv puser = Inr pout \<longrightarrow>
      length (auto_created_tasks (pred_returned pout)) \<le> 3)"
proof (intro conjI impI)
  assume a: "optimize_schedule env user_id date_range = Inr out"
  let ?os = "ranked_opportunities env date_range"
  from a obtain rs n t where
    loop: "execution_loop (insert_fails env) user_id ?os [] 0 (stored_tasks env) = (rs, n, t)"
    and ex: "executed_optimizations (returned out) = rs"
    by (rule optimize_schedule_Inr)
  have "length rs = length (selected_for_execution ?os 0)"
    using execution_loop_counts[OF loop] by simp
  moreover have "0 + length (selected_for_execution ?os 0) \<le> max 0 5"
    by (rule length_selected_le)
  ultimately show "length (executed_optimizations (returned out)) \<le> 5" using ex by simp
next
  assume "generate_predictive_tasks penv puser = Inr pout"
  then obtain table where
    "auto_create_loop (pred_insert_fails penv) puser (take 3 (ranked_tasks_of penv)) []
       (pred_stored_tasks penv) = Inr (auto_created_tasks (pred_returned pout), table)"
    using generate_Inr by blast
  from auto_create_loop_length[OF this]
  show "length (auto_created_tasks (pred_returned pout)) \<le> 3" by simp
qed

section \<open>The sample runs\<close>

lemma demo_run: "optimize_schedule demo_env ''42'' demo_range = Inr demo_outcome"
  unfolding demo_outcome_def using optimize_schedule_returns[of demo_env "''42''" demo_range]
  by auto

lemma demo_run_status:
  "map status (executed_optimizations (returned demo_outcome)) = [''failed'', ''created'']"
  by code_simp

lemma healthy_run: "generate_predictive_tasks healthy_pred_env ''42'' = Inr healthy_outcome"
  by code_simp

lemma healthy_run_titles:
  "map created_title (auto_created_tasks (pred_returned healthy_outcome)) =
     [''URGENT PREP: Project proposal'', ''Follow up on Client presentation'']"
  by code_simp

theorem C6_execution_bounded_witness:
  "optimize_schedule demo_env ''42'' demo_range = Inr demo_outcome
   \<and> length (executed_optimizations (returned demo_outcome)) = 2
   \<and> length (executed_optimizations (returned demo_outcome)) \<le> 5
   \<and> generate_predictive_tasks healthy_pred_env ''42'' = Inr healthy_outcome
   \<and> length (auto_created_tasks (pred_returned healthy_outcome)) = 2
   \<and> length (auto_created_tasks (pred_returned healthy_outcome)) \<le> 3"
  using C6_execution_bounded[of demo_env "''42''" demo_range demo_outcome healthy_pred_env "''42''" healthy_outcome]
    demo_run healthy_run
    arg_cong[OF demo_run_status, of length] arg_cong[OF healthy_run_titles, of length]
  by simp

theorem C3_suggested_is_remainder_witness:
  "optimize_schedule demo_env ''42'' demo_range = Inr demo_outcome
   \<and> ranked_opportunities demo_env demo_range = [demo_focus_10, demo_focus_11, demo_move_lunch]
   \<and> selected_for_execution (ranked_opportunities demo_env demo_range) 0
        = [demo_focus_10, demo_focus_11]
   \<and> suggested_optimizations (returned demo_outcome) = [demo_move_lunch]
   \<and> redis demo_env = Some True
   \<and> map_option cached_suggested (cache_entry demo_outcome) = Some [demo_move_lunch]
   \<and> map_option cached_executed (cache_entry demo_outcome)
        = Some (executed_optimizations (returned demo_outcome))"
proof -
  have sel: "selected_for_execution [demo_focus_10, demo_focus_11, demo_move_lunch] 0
               = [demo_focus_10, demo_focus_11]"
    by (simp add: demo_focus_10_def demo_focus_11_def demo_move_lunch_def)
  have r: "redis demo_env = Some True" by (simp add: demo_env_def)
  note t = C3_suggested_is_remainder[OF demo_run]
  from t have
    "ranked_opportunities demo_env demo_range =
       selected_for_execution (ranked_opportunities demo_env demo_range) 0
         @ suggested_optimizations (returned demo_outcome)" by blast
  then have "[demo_focus_10, demo_focus_11, demo_move_lunch] =
       [demo_focus_10, demo_focus_11] @ suggested_optimizations (returned demo_outcome)"
    unfolding demo_ranked sel .
  then have s: "suggested_optimizations (returned demo_outcome) = [demo_move_lunch]" by simp
  from t r have c: "cache_entry demo_outcome =
           Some \<lparr>cached_executed = executed_optimizations (returned demo_outcome),
                 cached_suggested = suggested_optimizations (returned demo_outcome),
                 cached_impact_summary = run_impact_summary (returned demo_outcome)\<rparr>"
    by simp
  from s r demo_run show ?thesis unfolding demo_ranked sel c by simp
qed

lemma execute_failed_focus:
  assumes "optimization_type opp = BLOCK_FOCUS_TIME"
    and "store_focus_task fails user_id table opp = Inl e"
  shows "execute_optimization fails user_id table opp = (failed_focus_result opp e, table)"
  using assms
  by (simp add: execute_optimization_def dispatch_optimization_def create_focus_block_def
      failed_focus_result_def)

text \<open>
  Claim C2, as amended. In schedule optimisation a selected focus block whose creation
  raises is recorded with status \<^verbatim>\<open>failed\<close> and the message of the exception, the loop
  goes on with the remaining candidates, and the run returns as many results as it
  selected candidates; the other three executors cannot raise. In task prediction
  \<^const>\<open>auto_create_task\<close> re-raises: the exception ends the loop, no later candidate is
  processed, and the run ends with that exception instead of a result.
\<close>

theorem C2_executor_failure:
  "(optimization_type opp = BLOCK_FOCUS_TIME \<and> passes_gate opp \<and> n < 5
      \<and> store_focus_task fails user_id table opp = Inl e \<longrightarrow>
        status (failed_focus_result opp e) = ''failed''
        \<and> error (failed_focus_result opp e) = Some (exn_str e)
        \<and> execution_loop fails user_id (opp # rest) rs n table =
            execution_loop fails user_id rest (rs @ [failed_focus_result opp e]) (n + 1) table)
   \<and> (optimize_schedule env user_id date_range = Inr out \<longrightarrow>
        length (executed_optimizations (returned out)) =
          length (selected_for_execution (ranked_opportunities env date_range) 0))
   \<and> (pred_confidence task > 0.85 \<and> auto_create_task pfails puser ptable task = Inl pe \<longrightarrow>
        auto_create_loop pfails puser (task # others) acc ptable = Inl pe)
   \<and> (context_failure penv = None
        \<and> auto_create_loop (pred_insert_fails penv) puser (take 3 (ranked_tasks_of penv)) []
                            (pred_stored_tasks penv) = Inl pe \<longrightarrow>
        generate_predictive_tasks penv puser = Inl pe)"
proof (intro conjI impI)
  assume a: "optimization_type opp = BLOCK_FOCUS_TIME \<and> passes_gate opp \<and> n < 5
      \<and> store_focus_task fails user_id table opp = Inl e"
  show "status (failed_focus_result opp e) = ''failed''"
    by (simp add: failed_focus_result_def empty_result_def)
  show "error (failed_focus_result opp e) = Some (exn_str e)"
    by (simp add: failed_focus_result_def empty_result_def)
  from a have "execute_optimization fails user_id table opp = (failed_focus_result opp e, table)"
    by (simp add: execute_failed_focus)
  with a show "execution_loop fails user_id (opp # rest) rs n table =
            execution_loop fails user_id rest (rs @ [failed_focus_result opp e]) (n + 1) table"
    by (simp add: passes_gate_def)
next
  assume a: "optimize_schedule env user_id date_range = Inr out"
  let ?os = "ranked_opportunities env date_range"
  from a obtain rs n t where
    loop: "execution_loop (insert_fails env) user_id ?os [] 0 (stored_tasks env) = (rs, n, t)"
    and ex: "executed_optimizations (returned out) = rs"
    by (rule optimize_schedule_Inr)
  show "length (executed_optimizations (returned out)) = length (selected_for_execution ?os 0)"
    using execution_loop_counts[OF loop] ex by simp
next
  assume "pred_confidence task > 0.85 \<and> auto_create_task pfails puser ptable task = Inl pe"
  then show "auto_create_loop pfails puser (task # others) acc ptable = Inl pe"
    by (simp add: bind_exn_def)
next
  assume "context_failure penv = None
        \<and> auto_create_loop (pred_insert_fails penv) puser (take 3 (ranked_tasks_of penv)) []
                            (pred_stored_tasks penv) = Inl pe"
  then show "generate_predictive_tasks penv puser = Inl pe"
    by (simp add: generate_predictive_tasks_def Let_def bind_exn_def)
qed

lemma demo_store_fails:
  "store_focus_task (insert_fails demo_env) ''42'' [] demo_focus_10
     = Inl (DatabaseError ''database is locked'')"
  by code_simp

lemma demo_create_fails:
  "pred_confidence (ranked_tasks_of demo_pred_env ! 0) > 0.85
   \<and> auto_create_task (pred_insert_fails demo_pred_env) ''42'' []
       (ranked_tasks_of demo_pred_env ! 0) = Inl (DatabaseError ''database is locked'')"
  by code_simp

lemma demo_loop_fails:
  "auto_create_loop (pred_insert_fails demo_pred_env) ''42''
      (take 3 (ranked_tasks_of demo_pred_env)) [] (pred_stored_tasks demo_pred_env)
     = Inl (DatabaseError ''database is locked'')"
  by code_simp

text \<open>
  The claim as stated fails for task prediction: two of the first three ranked
  predictions pass the confidence gate, the insert of the first one fails, and the run
  raises the exception; nothing is recorded and the second is never created.
\<close>

theorem C2_counterexample:
  "map pred_confidence (take 3 (ranked_tasks_of demo_pred_env)) = [0.95, 0.9, 0.7]
   \<and> generate_predictive_tasks demo_pred_env ''42'' = Inl (DatabaseError ''database is locked'')"
  by code_simp

theorem C2_executor_failure_witness:
  "status (failed_focus_result demo_focus_10 (DatabaseError ''database is locked'')) = ''failed''
   \<and> error (failed_focus_result demo_focus_10 (DatabaseError ''database is locked''))
        = Some ''database is locked''
   \<and> execution_loop (insert_fails demo_env) ''42'' [demo_focus_10, demo_focus_11, demo_move_lunch] [] 0 []
        = execution_loop (insert_fails demo_env) ''42'' [demo_focus_11, demo_move_lunch]
            [failed_focus_result demo_focus_10 (DatabaseError ''database is locked'')] 1 []
   \<and> length (executed_optimizations (returned demo_outcome)) = 2
   \<and> auto_create_loop (pred_insert_fails demo_pred_env) ''42''
          [ranked_tasks_of demo_pred_env ! 0, ranked_tasks_of demo_pred_env ! 1] [] []
        = Inl (DatabaseError ''database is locked'')
   \<and> generate_predictive_tasks demo_pred_env ''42'' = Inl (DatabaseError ''database is locked'')"
proof -
  have g: "optimization_type demo_focus_10 = BLOCK_FOCUS_TIME \<and> passes_gate demo_focus_10 \<and> (0::nat) < 5"
    by (simp add: demo_focus_10_def passes_gate_def)
  have c: "context_failure demo_pred_env = None" by (simp add: demo_pred_env_def)
  have sel: "selected_for_execution [demo_focus_10, demo_focus_11, demo_move_lunch] 0
               = [demo_focus_10, demo_focus_11]"
    by (simp add: demo_focus_10_def demo_focus_11_def demo_move_lunch_def)
  note t = C2_executor_failure[of demo_focus_10 0 "insert_fails demo_env" "''42''" "[]"
      "DatabaseError ''database is locked''" "[demo_focus_11, demo_move_lunch]" "[]"
      demo_env demo_range demo_outcome "ranked_tasks_of demo_pred_env ! 0"
      "pred_insert_fails demo_pred_env" "''42''" "[]"
      "DatabaseError ''database is locked''" "[ranked_tasks_of demo_pred_env ! 1]" "[]" demo_pred_env]
  from t g demo_store_fails demo_run c demo_loop_fails demo_create_fails
  show ?thesis unfolding demo_ranked sel by simp
qed






lemma demo_user_id: "py_int ''42'' = Inr 42"
  by code_simp







text \<open>
  Claim C10. When \<^const>\<open>auto_create_task\<close> succeeds it has stored exactly one new row,
  whose estimate is the duration of the prediction (25 when absent) divided by 25 and
  rounded down, but at least 1; in particular the estimate is 1 when the duration is
  absent or below 25 minutes.
\<close>

theorem C10_pomodoros_at_least_one:
  assumes "auto_create_task fails user_id table pred = Inr (created, table')"
  shows "\<exists>row. table' = table @ [row] \<and> created_id created = task_id row
           \<and> task_estimated_pomodoros row = Some (max 1 (duration_or_default pred div 25))
           \<and> 1 \<le> the (task_estimated_pomodoros row)
           \<and> ((pred_estimated_duration pred = None
                \<or> (\<exists>d. pred_estimated_duration pred = Some d \<and> d < 25))
               \<longrightarrow> task_estimated_pomodoros row = Some 1)"
proof -
  from assms obtain row0 row where
    n: "new_task user_id pred = Inr row0" and
    d: "db_add_commit fails table row0 = Inr (row, table')" and
    c: "created_id created = task_id row"
    by (auto simp: auto_create_task_def bind_exn_Inr_iff)
  from n have e0: "task_estimated_pomodoros row0 = Some (max 1 (duration_or_default pred div 25))"
    by (auto simp: new_task_def bind_exn_Inr_iff)
  from d have r: "row = row0\<lparr>task_id := next_id table\<rparr>" and t: "table' = table @ [row]"
    by (auto simp: db_add_commit_def Let_def split: option.splits)
  from r e0 have e: "task_estimated_pomodoros row = Some (max 1 (duration_or_default pred div 25))"
    by simp
  have low: "max 1 (duration_or_default pred div 25) = 1"
    if "pred_estimated_duration pred = None \<or> (\<exists>d. pred_estimated_duration pred = Some d \<and> d < 25)"
    using that by (auto simp: duration_or_default_def max_def)
  from t c e low show ?thesis by auto
qed

theorem C8_first_occurrence_wins_witness:
  "title demo_reschedule_a = ''Reschedule X'' \<and> title demo_reschedule_b = ''  reschedule x  ''
   \<and> combine_predictions [[demo_reschedule_a], [demo_reschedule_b]] = [asdict demo_reschedule_a]"
proof -
  have t: "title demo_reschedule_a = ''Reschedule X'' \<and> title demo_reschedule_b = ''  reschedule x  ''"
    by (simp add: demo_reschedule_a_def demo_reschedule_b_def)
  then have "combine_predictions [[demo_reschedule_a], [demo_reschedule_b]] = [asdict demo_reschedule_a]"
    by (rule mp[OF conjunct2[OF conjunct2[OF C8_first_occurrence_wins]]])
  with t show ?thesis by simp
qed

lemma demo_created_run:
  "auto_create_task (\<lambda>table row. None) ''42'' [] (asdict demo_follow_up)
     = Inr (fst demo_created, snd demo_created)"
  by code_simp

theorem C10_pomodoros_at_least_one_witness:
  "pred_estimated_duration (asdict demo_follow_up) = Some 20
   \<and> auto_create_task (\<lambda>table row. None) ''42'' [] (asdict demo_follow_up)
       = Inr (fst demo_created, snd demo_created)
   \<and> map task_estimated_pomodoros (snd demo_created) = [Some 1]"
proof -
  have d: "pred_estimated_duration (asdict demo_follow_up) = Some 20"
    by (simp add: asdict_def demo_follow_up_def)
  from C10_pomodoros_at_least_one[OF demo_created_run] obtain row where
    "snd demo_created = [] @ [row]"
    "(pred_estimated_duration (asdict demo_follow_up) = None
        \<or> (\<exists>d. pred_estimated_duration (asdict demo_follow_up) = Some d \<and> d < 25))
       \<longrightarrow> task_estimated_pomodoros row = Some 1"
    by blast
  with d demo_created_run show ?thesis by simp
qed


end
